theory Spec2Isabelle
  imports Main "HOL-Library.Word" "HOL-Library.Sublist"
begin

section \<open>A SauceNAO API client: request rendering and response decoding\<close>

text \<open>
  The development embeds the Go package \<^verbatim>\<open>saucenao\<close> (file \<^verbatim>\<open>saucenao.go\<close>, the revision
  with \<^verbatim>\<open>ImageBytes\<close> and \<^verbatim>\<open>QuotaError\<close>, and the file declaring \<^verbatim>\<open>DanbooruData\<close>).
  Strings are byte strings (\<^typ>\<open>string\<close>), as Go's are. Functions of Go's standard
  library that the package calls are written out where their behaviour is fixed by their
  documentation (\<^verbatim>\<open>strconv.FormatUint\<close>, \<^verbatim>\<open>url.QueryEscape\<close>, \<^verbatim>\<open>strconv.ParseInt\<close>,
  the \<^verbatim>\<open>mime/multipart\<close> writer) and are parameters where they are not
  (the random multipart boundary, the URL check of \<^verbatim>\<open>net/http\<close>, the HTTP transport,
  \<^verbatim>\<open>strconv.ParseFloat\<close>, the text of decoding errors).
\<close>

subsection \<open>Go errors\<close>

text \<open>
  An error value is: the result of \<^verbatim>\<open>errors.New\<close> or of \<^verbatim>\<open>fmt.Errorf\<close> without \<^verbatim>\<open>%w\<close>
  (a message only); the result of \<^verbatim>\<open>fmt.Errorf\<close> with \<^verbatim>\<open>%w\<close> (a message and the wrapped
  error); the package's own \<^verbatim>\<open>QuotaError{}\<close>; or an error of a type declared elsewhere
  (a reader's, the transport's, the JSON decoder's), of which only the message is kept.
\<close>

datatype go_error =
    ErrorString string
  | WrapError string go_error
  | QuotaError
  | Foreign string

text \<open>The method \<^verbatim>\<open>Error()\<close>.\<close>

fun Error :: "go_error \<Rightarrow> string" where
  "Error (ErrorString s) = s"
| "Error (WrapError s e) = s"
| "Error QuotaError = ''rate limited''"
| "Error (Foreign s) = s"

text \<open>\<^verbatim>\<open>errors.Unwrap\<close>: only a \<^verbatim>\<open>%w\<close> error has something inside.\<close>

fun Unwrap :: "go_error \<Rightarrow> go_error option" where
  "Unwrap (WrapError s e) = Some e"
| "Unwrap e = None"

text \<open>
  \<^verbatim>\<open>errors.As(err, &QuotaError{})\<close>: is there a \<^verbatim>\<open>QuotaError\<close> on the chain of wrapped
  errors? This is the test by type a caller has.
\<close>

fun errors_As_QuotaError :: "go_error \<Rightarrow> bool" where
  "errors_As_QuotaError (ErrorString s) = False"
| "errors_As_QuotaError (WrapError s e) = errors_As_QuotaError e"
| "errors_As_QuotaError QuotaError = True"
| "errors_As_QuotaError (Foreign s) = False"

text \<open>\<^verbatim>\<open>fmt.Errorf("saucenao search: %w", err)\<close> and \<^verbatim>\<open>fmt.Errorf("saucenao search: %s", err)\<close>.\<close>

definition Errorf_w :: "string \<Rightarrow> go_error \<Rightarrow> go_error" where
  "Errorf_w pre e = WrapError (pre @ Error e) e"

definition Errorf_s :: "string \<Rightarrow> go_error \<Rightarrow> go_error" where
  "Errorf_s pre e = ErrorString (pre @ Error e)"

subsection \<open>Readers\<close>

text \<open>
  An \<^verbatim>\<open>io.Reader\<close> read to exhaustion: what it delivers, and how it ends, with
  \<^verbatim>\<open>io.EOF\<close> (\<open>None\<close>) or with a read error. \<^verbatim>\<open>io.Copy\<close> and \<^verbatim>\<open>ioutil.ReadAll\<close>
  return the error when there is one; the caller then drops what was read.
\<close>

datatype 'a reader = Reader 'a "go_error option"

fun ReadAll :: "'a reader \<Rightarrow> go_error + 'a" where
  "ReadAll (Reader bs None) = Inr bs"
| "ReadAll (Reader bs (Some e)) = Inl e"

subsection \<open>JSON texts\<close>

text \<open>
  A JSON value. A number keeps its literal, as the decoder does until it knows the type
  it decodes into; strings and keys are the decoded bytes; an object keeps its members in
  order, duplicates included.
\<close>

datatype json =
    JNull
  | JBool bool
  | JNumber string
  | JString string
  | JArray "json list"
  | JObject "(string \<times> json) list"

text \<open>
  The syntax of JSON at the level of bytes is not modelled. \<^verbatim>\<open>json.Unmarshal\<close> first runs
  its scanner over the whole text (\<^verbatim>\<open>checkValid\<close>) and returns a \<^verbatim>\<open>*json.SyntaxError\<close> when
  the text is not one JSON value; a text is given here by what the scanner makes of it:
  the message of the syntax error, or the value. The empty text, which is what a nil
  \<^verbatim>\<open>json.RawMessage\<close> holds, is \<open>no_bytes\<close>.
\<close>

datatype raw_json = Malformed string | WellFormed json

definition no_bytes :: raw_json where
  "no_bytes = Malformed ''unexpected end of JSON input''"

subsection \<open>The client, the request, the constants\<close>

type_synonym DBMask = "64 word"

record Request =
  Method :: string
  RawURL :: string
  ReqBody :: "string option"
  ContentType :: "string option"

text \<open>An \<^verbatim>\<open>http.Response\<close>: the fields \<^verbatim>\<open>StatusCode\<close>, \<^verbatim>\<open>Status\<close> and \<^verbatim>\<open>Body\<close>.\<close>

record Response =
  StatusCode :: int
  StatusText :: string
  RespBody :: "raw_json reader"

text \<open>
  The field \<^verbatim>\<open>C http.Client\<close> is the transport: what \<^verbatim>\<open>c.C.Do(req)\<close> answers to a request,
  a response or an error.
\<close>

record Client =
  C_Do :: "Request \<Rightarrow> go_error + Response"
  Service :: string
  APIKey :: string

record SearchRequest =
  URL :: string
  ImageBytes :: "string reader option"
  TestMode :: bool
  DBMask :: DBMask
  DBMaskI :: DBMask
  NumRes :: "32 word"

definition Pixiv :: nat where "Pixiv = 5"
definition Danbooru :: nat where "Danbooru = 9"
definition Yandere :: nat where "Yandere = 12"
definition Gelbooru :: nat where "Gelbooru = 25"
definition Konachan :: nat where "Konachan = 26"

definition PixivBit :: DBMask where "PixivBit = push_bit Pixiv 1"
definition DanbooruBit :: DBMask where "DanbooruBit = push_bit Danbooru 1"
definition YandereBit :: DBMask where "YandereBit = push_bit Yandere 1"
definition GelbooruBit :: DBMask where "GelbooruBit = push_bit Gelbooru 1"
definition KonachanBit :: DBMask where "KonachanBit = push_bit Konachan 1"

subsection \<open>Rendering the URL\<close>

text \<open>\<^verbatim>\<open>strconv.FormatUint(n, 10)\<close>: the decimal digits of \<open>n\<close>, no leading zero.\<close>

definition digit_char :: "nat \<Rightarrow> char" where
  "digit_char d = ''0123456789'' ! d"

function FormatUint :: "nat \<Rightarrow> string" where
  "FormatUint n = (if n < 10 then [digit_char n] else FormatUint (n div 10) @ [digit_char (n mod 10)])"
  by pat_completeness auto
termination
  by (relation "measure id") auto

declare FormatUint.simps [simp del]

text \<open>
  \<^verbatim>\<open>url.QueryEscape\<close>. In the mode \<^verbatim>\<open>encodeQueryComponent\<close>, \<^verbatim>\<open>shouldEscape\<close> keeps ASCII
  letters, digits and \<^verbatim>\<open>- _ . ~\<close>; a space becomes \<^verbatim>\<open>+\<close>; every other byte becomes
  \<^verbatim>\<open>%XX\<close> in upper-case hexadecimal.
\<close>

definition is_alnum :: "char \<Rightarrow> bool" where
  "is_alnum c = (let n = (of_char c :: nat) in
     (97 \<le> n \<and> n \<le> 122) \<or> (65 \<le> n \<and> n \<le> 90) \<or> (48 \<le> n \<and> n \<le> 57))"

definition shouldEscape :: "char \<Rightarrow> bool" where
  "shouldEscape c = (if is_alnum c then False
     else if c \<in> {CHR ''-'', CHR ''_'', CHR ''.'', CHR ''~''} then False
     else True)"

definition upperhex :: string where
  "upperhex = ''0123456789ABCDEF''"

fun QueryEscape :: "string \<Rightarrow> string" where
  "QueryEscape [] = []"
| "QueryEscape (c # cs) =
     (if c = CHR '' '' then CHR ''+'' # QueryEscape cs
      else if shouldEscape c then
        CHR ''%'' # upperhex ! ((of_char c :: nat) div 16) # upperhex ! ((of_char c :: nat) mod 16)
          # QueryEscape cs
      else c # QueryEscape cs)"

text \<open>\<^verbatim>\<open>searchURL\<close>: the writes to the \<^verbatim>\<open>strings.Builder\<close>, in order.\<close>

definition searchURL :: "Client \<Rightarrow> SearchRequest \<Rightarrow> string" where
  "searchURL c r =
     Service c
     @ ''/search.php?output_type=2&api_key=''
     @ APIKey c
     @ ''&numres=''
     @ FormatUint (unat (NumRes r))
     @ (if TestMode r then ''&testmode=1'' else [])
     @ (if DBMask r \<noteq> 0 then ''&dbmask='' @ FormatUint (unat (DBMask r)) else [])
     @ (if DBMaskI r \<noteq> 0 then ''&dbmaski='' @ FormatUint (unat (DBMaskI r)) else [])
     @ (if URL r \<noteq> [] then ''&url='' @ QueryEscape (URL r) else [])"

subsection \<open>The multipart body\<close>

text \<open>
  \<^verbatim>\<open>multipart.NewWriter\<close> draws a random boundary: 30 random bytes printed with \<^verbatim>\<open>%x\<close>,
  that is 60 lower-case hexadecimal digits. The draw is the parameter \<open>RandomBoundary\<close>.
  \<^verbatim>\<open>http.NewRequestWithContext\<close> fails on a nil context and on a URL that \<^verbatim>\<open>url.Parse\<close>
  rejects; \<open>NewRequestOK method url\<close> says that it does not fail.
\<close>

record net_http =
  NewRequestOK :: "string \<Rightarrow> string \<Rightarrow> bool"
  RandomBoundary :: string

definition is_random_boundary :: "string \<Rightarrow> bool" where
  "is_random_boundary b = (length b = 60 \<and> list_all (\<lambda>c. c \<in> set ''0123456789abcdef'') b)"

definition CRLF :: string where
  "CRLF = [CHR 0x0D, CHR 0x0A]"

text \<open>
  What \<^verbatim>\<open>w.CreateFormFile(fieldname, filename)\<close> writes for the first part: the delimiter
  line, the two headers in the order of their sorted keys, and the empty line.
  (\<^verbatim>\<open>escapeQuotes\<close> is the identity on names without quote, backslash, CR or LF, as the two
  names used here are.)
\<close>

definition CreateFormFile :: "string \<Rightarrow> string \<Rightarrow> string \<Rightarrow> string" where
  \<open>CreateFormFile b fieldname filename =
     ''--'' @ b @ CRLF
     @ ''Content-Disposition: form-data; name="'' @ fieldname @ ''"; filename="'' @ filename @ ''"'' @ CRLF
     @ ''Content-Type: application/octet-stream'' @ CRLF
     @ CRLF\<close>

text \<open>What \<^verbatim>\<open>w.Close()\<close> writes: the closing delimiter.\<close>

definition Close :: "string \<Rightarrow> string" where
  "Close b = CRLF @ ''--'' @ b @ ''--'' @ CRLF"

text \<open>\<^verbatim>\<open>w.FormDataContentType()\<close>: the boundary is quoted when it has a special character.\<close>

definition FormDataContentType :: "string \<Rightarrow> string" where
  \<open>FormDataContentType b =
     ''multipart/form-data; boundary=''
     @ (if list_ex (\<lambda>c. c \<in> set (''()<>@,;:'' @ [CHR 0x5C, CHR 0x22] @ ''/[]?= '')) b then ''"'' @ b @ ''"'' else b)\<close>

subsection \<open>Building the request\<close>

text \<open>A call either panics or returns; Go's pair of results is a pair of options.\<close>

datatype 'a outcome = Panics | Returns 'a

text \<open>
  \<^verbatim>\<open>requestForSearch\<close>. Writing to the \<^verbatim>\<open>bytes.Buffer\<close> does not fail, so
  \<^verbatim>\<open>CreateFormFile\<close> and \<^verbatim>\<open>Close\<close> return no error; \<^verbatim>\<open>io.Copy\<close> returns the reader's.
\<close>

definition requestForSearch ::
  "net_http \<Rightarrow> Client \<Rightarrow> SearchRequest \<Rightarrow> (Request option \<times> go_error option) outcome" where
  "requestForSearch h c r =
     (case ImageBytes r of
        None \<Rightarrow>
          if NewRequestOK h ''GET'' (searchURL c r)
          then Returns (Some \<lparr>Method = ''GET'', RawURL = searchURL c r,
                               ReqBody = None, ContentType = None\<rparr>, None)
          else Panics
      | Some img \<Rightarrow>
          (case ReadAll img of
             Inl err \<Rightarrow> Returns (None, Some err)
           | Inr bytes \<Rightarrow>
               if NewRequestOK h ''POST'' (searchURL c r)
               then Returns (Some \<lparr>Method = ''POST'', RawURL = searchURL c r,
                      ReqBody = Some (CreateFormFile (RandomBoundary h) ''file'' ''image''
                                      @ bytes @ Close (RandomBoundary h)),
                      ContentType = Some (FormDataContentType (RandomBoundary h))\<rparr>, None)
               else Panics))"

subsection \<open>Decoding JSON into the package's structs\<close>

text \<open>
  \<^verbatim>\<open>strconv.ParseInt(s, 10, 64)\<close>: an optional sign, then decimal digits only, and the value
  must fit 64 bits. Go's \<^verbatim>\<open>int\<close> is taken to be 64 bits wide.
\<close>

definition is_digit :: "char \<Rightarrow> bool" where
  "is_digit c = (48 \<le> (of_char c :: nat) \<and> (of_char c :: nat) \<le> 57)"

definition digits_value :: "string \<Rightarrow> nat" where
  "digits_value ds = foldl (\<lambda>a c. 10 * a + ((of_char c :: nat) - 48)) 0 ds"

definition ParseInt :: "string \<Rightarrow> int option" where
  "ParseInt s =
     (if s = [] then None
      else let neg = (hd s = CHR ''-'');
               ds = (if hd s = CHR ''+'' \<or> hd s = CHR ''-'' then tl s else s)
           in if ds = [] \<or> \<not> list_all is_digit ds then None
              else let un = digits_value ds
                   in if \<not> neg \<and> un \<ge> 2 ^ 63 then None
                      else if neg \<and> un > 2 ^ 63 then None
                      else Some (if neg then - int un else int un))"

text \<open>The grammar of a JSON number: what the literal of a \<open>JNumber\<close> in a valid text is.\<close>

definition exp_ok :: "string \<Rightarrow> bool" where
  "exp_ok r =
     (case r of
        [] \<Rightarrow> True
      | c # cs \<Rightarrow> (c = CHR ''e'' \<or> c = CHR ''E'')
          \<and> (let ds = (if cs \<noteq> [] \<and> (hd cs = CHR ''+'' \<or> hd cs = CHR ''-'') then tl cs else cs)
             in ds \<noteq> [] \<and> list_all is_digit ds))"

definition frac_exp_ok :: "string \<Rightarrow> bool" where
  "frac_exp_ok r =
     (case r of
        [] \<Rightarrow> True
      | c # cs \<Rightarrow>
          if c = CHR ''.'' then takeWhile is_digit cs \<noteq> [] \<and> exp_ok (dropWhile is_digit cs)
          else exp_ok r)"

definition is_number_literal :: "string \<Rightarrow> bool" where
  "is_number_literal s =
     (let s1 = (if s \<noteq> [] \<and> hd s = CHR ''-'' then tl s else s);
          ip = takeWhile is_digit s1
      in ip \<noteq> [] \<and> (if hd ip = CHR ''0'' then length ip = 1 else True)
         \<and> frac_exp_ok (dropWhile is_digit s1))"

text \<open>
  The result of decoding: a value, or an error of the decoder (\<^verbatim>\<open>saveError\<close>, or an
  error returned at once: in both cases \<^verbatim>\<open>Unmarshal\<close> returns an error and the caller
  drops the value, so the model stops at the first).
\<close>

datatype 'a dec = Dec 'a | Err

fun map_dec :: "('a \<Rightarrow> 'b) \<Rightarrow> 'a dec \<Rightarrow> 'b dec" where
  "map_dec f (Dec x) = Dec (f x)"
| "map_dec f Err = Err"

text \<open>
  Decoding into a field of a given Go type, from the field's current value. JSON
  \<^verbatim>\<open>null\<close> leaves an \<^verbatim>\<open>int\<close>, a \<^verbatim>\<open>float64\<close> or a \<^verbatim>\<open>string\<close> as it is and makes a slice nil.
  With the tag option \<^verbatim>\<open>,string\<close> the value must be a JSON string, whose contents are
  then read as the literal (\<^verbatim>\<open>literalStore\<close> with \<^verbatim>\<open>fromQuoted\<close>).
  \<^verbatim>\<open>strconv.ParseFloat\<close> is the parameter \<open>pf\<close>. The literal of a number is a JSON
  number in every text the scanner lets through; for another literal, which no text
  has, the answer here is the error.
\<close>

fun decode_int :: "int \<Rightarrow> json \<Rightarrow> int dec" where
  "decode_int cur JNull = Dec cur"
| "decode_int cur (JNumber lit) =
     (if \<not> is_number_literal lit then Err
      else case ParseInt lit of Some n \<Rightarrow> Dec n | None \<Rightarrow> Err)"
| "decode_int cur v = Err"

fun decode_float :: "(string \<Rightarrow> 'f option) \<Rightarrow> 'f \<Rightarrow> json \<Rightarrow> 'f dec" where
  "decode_float pf cur JNull = Dec cur"
| "decode_float pf cur (JNumber lit) =
     (if \<not> is_number_literal lit then Err
      else case pf lit of Some x \<Rightarrow> Dec x | None \<Rightarrow> Err)"
| "decode_float pf cur v = Err"

definition starts_number :: "string \<Rightarrow> bool" where
  "starts_number s = (s \<noteq> [] \<and> (hd s = CHR ''-'' \<or> is_digit (hd s)))"

fun decode_int_string :: "int \<Rightarrow> json \<Rightarrow> int dec" where
  "decode_int_string cur JNull = Dec cur"
| "decode_int_string cur (JString s) =
     (if s = ''null'' then Dec cur
      else if starts_number s then (case ParseInt s of Some n \<Rightarrow> Dec n | None \<Rightarrow> Err)
      else Err)"
| "decode_int_string cur v = Err"

fun decode_float_string :: "(string \<Rightarrow> 'f option) \<Rightarrow> 'f \<Rightarrow> json \<Rightarrow> 'f dec" where
  "decode_float_string pf cur JNull = Dec cur"
| "decode_float_string pf cur (JString s) =
     (if s = ''null'' then Dec cur
      else if starts_number s then (case pf s of Some x \<Rightarrow> Dec x | None \<Rightarrow> Err)
      else Err)"
| "decode_float_string pf cur v = Err"

fun decode_string :: "string \<Rightarrow> json \<Rightarrow> string dec" where
  "decode_string cur JNull = Dec cur"
| "decode_string cur (JString s) = Dec s"
| "decode_string cur v = Err"

text \<open>
  Into a slice. The decoder decodes the element number \<open>i\<close> of the array into the
  element number \<open>i\<close> of the slice's backing array, which holds an earlier value when the
  field has been decoded into before, and is fresh (\<open>zero\<close>) beyond; then it cuts the
  slice to the length of the array. A slice is given here by its elements and by
  \<open>spare\<close>, the earlier values in its backing array behind them. An empty array gives a
  new empty slice, \<^verbatim>\<open>null\<close> a nil one.
\<close>

fun decode_elems :: "('a \<Rightarrow> json \<Rightarrow> 'a dec) \<Rightarrow> 'a \<Rightarrow> 'a list \<Rightarrow> json list \<Rightarrow> 'a list dec" where
  "decode_elems elem zero store [] = Dec []"
| "decode_elems elem zero store (v # vs) =
     (case elem (case store of [] \<Rightarrow> zero | x # xs \<Rightarrow> x) v of
        Err \<Rightarrow> Err
      | Dec y \<Rightarrow> map_dec ((#) y) (decode_elems elem zero (tl store) vs))"

fun decode_slice ::
  "('a \<Rightarrow> json \<Rightarrow> 'a dec) \<Rightarrow> 'a \<Rightarrow> 'a list \<times> 'a list \<Rightarrow> json \<Rightarrow> ('a list \<times> 'a list) dec" where
  "decode_slice elem zero (elems, spare) JNull = Dec ([], [])"
| "decode_slice elem zero (elems, spare) (JArray vs) =
     (if vs = [] then Dec ([], [])
      else map_dec (\<lambda>ys. (ys, drop (length vs) (elems @ spare)))
             (decode_elems elem zero (elems @ spare) vs))"
| "decode_slice elem zero (elems, spare) v = Err"

text \<open>Into a \<^verbatim>\<open>json.RawMessage\<close>: the text of the value, whatever it is.\<close>

definition decode_raw :: "json \<Rightarrow> raw_json dec" where
  "decode_raw v = Dec (WellFormed v)"

text \<open>
  Which field a key names: the field whose name is the key; failing that, the first
  field whose name equals the key under Unicode case folding. The names are ASCII, so
  a key equals a name under folding when byte for byte they are the same up to the case
  of ASCII letters, where the key may have the long s (U+017F, bytes C5 BF) for an
  \<^verbatim>\<open>s\<close> and the Kelvin sign (U+212A, bytes E2 84 AA) for a \<^verbatim>\<open>k\<close>, the two characters
  outside ASCII that fold to an ASCII letter.
\<close>

definition char_fold_eq :: "char \<Rightarrow> char \<Rightarrow> bool" where
  "char_fold_eq a b =
     (let m = (of_char a :: nat); n = (of_char b :: nat)
      in m = n \<or> (97 \<le> m \<and> m \<le> 122 \<and> m = n + 32) \<or> (97 \<le> n \<and> n \<le> 122 \<and> n = m + 32))"

fun fold_eq :: "string \<Rightarrow> string \<Rightarrow> bool" where
  "fold_eq [] [] = True"
| "fold_eq [] (c # cs) = False"
| "fold_eq (n # ns) [] = False"
| "fold_eq (n # ns) (c # cs) =
     (if (of_char c :: nat) < 128 then char_fold_eq n c \<and> fold_eq ns cs
      else (case cs of
              [] \<Rightarrow> False
            | c2 # cs2 \<Rightarrow>
                if c = CHR 0xC5 \<and> c2 = CHR 0xBF then (n = CHR ''s'' \<or> n = CHR ''S'') \<and> fold_eq ns cs2
                else (case cs2 of
                        [] \<Rightarrow> False
                      | c3 # cs3 \<Rightarrow>
                          c = CHR 0xE2 \<and> c2 = CHR 0x84 \<and> c3 = CHR 0xAA
                          \<and> (n = CHR ''k'' \<or> n = CHR ''K'') \<and> fold_eq ns cs3)))"

fun find_index :: "('a \<Rightarrow> bool) \<Rightarrow> 'a list \<Rightarrow> nat option" where
  "find_index P [] = None"
| "find_index P (x # xs) = (if P x then Some 0 else map_option Suc (find_index P xs))"

definition find_field :: "string list \<Rightarrow> string \<Rightarrow> nat option" where
  "find_field names key =
     (case find_index (\<lambda>n. n = key) names of
        Some i \<Rightarrow> Some i
      | None \<Rightarrow> find_index (\<lambda>n. fold_eq n key) names)"

text \<open>
  Into a struct: the members of the object in order, each decoded into the field its key
  names, from what the field holds then, or skipped when it names none.
\<close>

type_synonym 's field = "string \<times> ('s \<Rightarrow> json \<Rightarrow> 's dec)"

fun decode_members :: "'s field list \<Rightarrow> (string \<times> json) list \<Rightarrow> 's \<Rightarrow> 's dec" where
  "decode_members fs [] s = Dec s"
| "decode_members fs ((k, v) # ms) s =
     (case find_field (map fst fs) k of
        None \<Rightarrow> decode_members fs ms s
      | Some i \<Rightarrow>
          (case snd (fs ! i) s v of
             Dec s' \<Rightarrow> decode_members fs ms s'
           | Err \<Rightarrow> Err))"

fun decode_struct :: "'s field list \<Rightarrow> 's \<Rightarrow> json \<Rightarrow> 's dec" where
  "decode_struct fs s JNull = Dec s"
| "decode_struct fs s (JObject ms) = decode_members fs ms s"
| "decode_struct fs s v = Err"

subsection \<open>The response and its decoding\<close>

text \<open>
  The structs, with \<^verbatim>\<open>float64\<close> as a type parameter. (\<^verbatim>\<open>SearchResult\<close> has a field
  \<^verbatim>\<open>Header\<close> too; it is \<open>ResultHeader\<close> here.)
\<close>

record 'f SearchHeader =
  Status :: int
  ResultsRequested :: int
  ResultsReturned :: int
  ShortRemaining :: int
  LongRemaining :: int
  ShortLimit :: int
  LongLimit :: int
  MinimumSimilarity :: 'f

record 'f SearchResultHeader =
  IndexName :: string
  IndexID :: int
  Thumbnail :: string
  Similarity :: 'f

record 'f SearchResult =
  ResultHeader :: "'f SearchResultHeader"
  Data :: raw_json

record 'f SearchResponse =
  Header :: "'f SearchHeader"
  Results :: "'f SearchResult list"



text \<open>The zero values (\<^verbatim>\<open>var sr SearchResponse\<close>, \<^verbatim>\<open>var d DanbooruData\<close>).\<close>

definition zero_SearchHeader :: "'f \<Rightarrow> 'f SearchHeader" where
  "zero_SearchHeader z = \<lparr>Status = 0, ResultsRequested = 0, ResultsReturned = 0,
     ShortRemaining = 0, LongRemaining = 0, ShortLimit = 0, LongLimit = 0,
     MinimumSimilarity = z\<rparr>"

definition zero_SearchResultHeader :: "'f \<Rightarrow> 'f SearchResultHeader" where
  "zero_SearchResultHeader z = \<lparr>IndexName = [], IndexID = 0, Thumbnail = [], Similarity = z\<rparr>"

definition zero_SearchResult :: "'f \<Rightarrow> 'f SearchResult" where
  "zero_SearchResult z = \<lparr>ResultHeader = zero_SearchResultHeader z, Data = no_bytes\<rparr>"

definition zero_SearchResponse :: "'f \<Rightarrow> 'f SearchResponse" where
  "zero_SearchResponse z = \<lparr>Header = zero_SearchHeader z, Results = []\<rparr>"


text \<open>
  The fields of each struct in the order of their declaration, with the name of the
  \<^verbatim>\<open>json\<close> tag and the decoder of the field's type; \<^verbatim>\<open>,string\<close> on \<^verbatim>\<open>short_limit\<close>,
  \<^verbatim>\<open>Long_limit\<close> and \<^verbatim>\<open>similarity\<close>. A struct with a slice is decoded together with the
  spare of the slice.
\<close>

definition SearchHeader_fields :: "(string \<Rightarrow> 'f option) \<Rightarrow> 'f SearchHeader field list" where
  "SearchHeader_fields pf =
     [(''status'', \<lambda>s v. map_dec (\<lambda>x. s\<lparr>Status := x\<rparr>) (decode_int (Status s) v)),
      (''results_requested'',
         \<lambda>s v. map_dec (\<lambda>x. s\<lparr>ResultsRequested := x\<rparr>) (decode_int (ResultsRequested s) v)),
      (''results_returned'',
         \<lambda>s v. map_dec (\<lambda>x. s\<lparr>ResultsReturned := x\<rparr>) (decode_int (ResultsReturned s) v)),
      (''short_remaining'',
         \<lambda>s v. map_dec (\<lambda>x. s\<lparr>ShortRemaining := x\<rparr>) (decode_int (ShortRemaining s) v)),
      (''long_remaining'',
         \<lambda>s v. map_dec (\<lambda>x. s\<lparr>LongRemaining := x\<rparr>) (decode_int (LongRemaining s) v)),
      (''short_limit'',
         \<lambda>s v. map_dec (\<lambda>x. s\<lparr>ShortLimit := x\<rparr>) (decode_int_string (ShortLimit s) v)),
      (''Long_limit'',
         \<lambda>s v. map_dec (\<lambda>x. s\<lparr>LongLimit := x\<rparr>) (decode_int_string (LongLimit s) v)),
      (''minimum_similarity'',
         \<lambda>s v. map_dec (\<lambda>x. s\<lparr>MinimumSimilarity := x\<rparr>) (decode_float pf (MinimumSimilarity s) v))]"

definition SearchResultHeader_fields ::
  "(string \<Rightarrow> 'f option) \<Rightarrow> 'f SearchResultHeader field list" where
  "SearchResultHeader_fields pf =
     [(''index_name'', \<lambda>s v. map_dec (\<lambda>x. s\<lparr>IndexName := x\<rparr>) (decode_string (IndexName s) v)),
      (''index_id'', \<lambda>s v. map_dec (\<lambda>x. s\<lparr>IndexID := x\<rparr>) (decode_int (IndexID s) v)),
      (''thumbnail'', \<lambda>s v. map_dec (\<lambda>x. s\<lparr>Thumbnail := x\<rparr>) (decode_string (Thumbnail s) v)),
      (''similarity'',
         \<lambda>s v. map_dec (\<lambda>x. s\<lparr>Similarity := x\<rparr>) (decode_float_string pf (Similarity s) v))]"

definition SearchResult_fields :: "(string \<Rightarrow> 'f option) \<Rightarrow> 'f SearchResult field list" where
  "SearchResult_fields pf =
     [(''header'',
         \<lambda>s v. map_dec (\<lambda>x. s\<lparr>ResultHeader := x\<rparr>)
                  (decode_struct (SearchResultHeader_fields pf) (ResultHeader s) v)),
      (''data'', \<lambda>s v. map_dec (\<lambda>x. s\<lparr>Data := x\<rparr>) (decode_raw v))]"

definition SearchResponse_fields ::
  "(string \<Rightarrow> 'f option) \<Rightarrow> 'f \<Rightarrow> ('f SearchResponse \<times> 'f SearchResult list) field list" where
  "SearchResponse_fields pf z =
     [(''header'',
         \<lambda>(s, spare) v. map_dec (\<lambda>x. (s\<lparr>Header := x\<rparr>, spare))
                  (decode_struct (SearchHeader_fields pf) (Header s) v)),
      (''results'',
         \<lambda>(s, spare) v. map_dec (\<lambda>(rs, spare'). (s\<lparr>Results := rs\<rparr>, spare'))
                  (decode_slice (decode_struct (SearchResult_fields pf)) (zero_SearchResult z)
                     (Results s, spare) v))]"


text \<open>
  What \<^verbatim>\<open>encoding/json\<close> is taken as given: \<^verbatim>\<open>strconv.ParseFloat(s, 64)\<close> and the
  \<^verbatim>\<open>float64\<close> zero, and the message of the error it reports for a value that does not
  fit a type (named by the type).
\<close>

record 'f encoding_json =
  ParseFloat :: "string \<Rightarrow> 'f option"
  FloatZero :: 'f
  ErrorText :: "string \<Rightarrow> json \<Rightarrow> string"

text \<open>\<^verbatim>\<open>json.Unmarshal(d, &sr)\<close> and \<^verbatim>\<open>json.Unmarshal(r.Data, &d)\<close>, into a zero struct.\<close>

definition Unmarshal_SearchResponse ::
  "'f encoding_json \<Rightarrow> raw_json \<Rightarrow> go_error + 'f SearchResponse" where
  "Unmarshal_SearchResponse j d =
     (case d of
        Malformed msg \<Rightarrow> Inl (Foreign msg)
      | WellFormed v \<Rightarrow>
          (case decode_struct (SearchResponse_fields (ParseFloat j) (FloatZero j))
                  (zero_SearchResponse (FloatZero j), []) v of
             Dec (sr, spare) \<Rightarrow> Inr sr
           | Err \<Rightarrow> Inl (Foreign (ErrorText j ''saucenao.SearchResponse'' v))))"



subsection \<open>The search\<close>

text \<open>
  \<^verbatim>\<open>Search\<close>. Beside what it returns, the model gives the requests handed to the
  transport, in order.
\<close>

definition Search ::
  "net_http \<Rightarrow> 'f encoding_json \<Rightarrow> Client \<Rightarrow> SearchRequest
     \<Rightarrow> Request list \<times> ('f SearchResponse option \<times> go_error option) outcome" where
  "Search h j c r =
     (case requestForSearch h c r of
        Panics \<Rightarrow> ([], Panics)
      | Returns (_, Some err) \<Rightarrow> ([], Returns (None, Some (Errorf_w ''saucenao search: '' err)))
      | Returns (None, None) \<Rightarrow> ([], Panics)
      | Returns (Some req, None) \<Rightarrow>
          (case C_Do c req of
             Inl err \<Rightarrow> ([req], Returns (None, Some (Errorf_s ''saucenao search: '' err)))
           | Inr resp \<Rightarrow>
               ([req],
                if StatusCode resp = 200 then
                  (case ReadAll (RespBody resp) of
                     Inl err \<Rightarrow> Returns (None, Some (Errorf_s ''saucenao search: '' err))
                   | Inr d \<Rightarrow>
                       (case Unmarshal_SearchResponse j d of
                          Inl err \<Rightarrow> Returns (None, Some (Errorf_s ''saucenao search: '' err))
                        | Inr sr \<Rightarrow> Returns (Some sr, None)))
                else if StatusCode resp = 429 then
                  Returns (None, Some (Errorf_w ''saucenao search: '' QuotaError))
                else
                  Returns (None, Some (ErrorString
                    (''saucenao search: unexpected status '' @ StatusText resp))))))"

subsection \<open>Reading a multipart body back\<close>

text \<open>
  The reader of \<^verbatim>\<open>mime/multipart\<close>, as the package's test uses it
  (\<^verbatim>\<open>multipart.NewReader(req.Body, boundary)\<close>, \<^verbatim>\<open>NextPart\<close>, \<^verbatim>\<open>ioutil.ReadAll\<close>), on a
  body that is in memory as a whole. \<open>None\<close> is an error of the reader, or a body of a
  form left out here (text before the first delimiter line, header keys that are not in
  canonical form).
\<close>

definition lwsp :: "char \<Rightarrow> bool" where
  "lwsp c = (c = CHR '' '' \<or> c = CHR 0x09)"

text \<open>
  \<^verbatim>\<open>matchAfterPrefix\<close> at the end of the input: after the delimiter come a space, a tab,
  CR, LF, two dashes, or nothing.
\<close>

definition matchAfterPrefix :: "string \<Rightarrow> bool" where
  "matchAfterPrefix rest =
     (case rest of
        [] \<Rightarrow> True
      | c # cs \<Rightarrow>
          if c = CHR '' '' \<or> c = CHR 0x09 \<or> c = CHR 0x0D \<or> c = CHR 0x0A then True
          else if c = CHR ''-'' then (case cs of [] \<Rightarrow> False | c2 # _ \<Rightarrow> c2 = CHR ''-'')
          else False)"

text \<open>
  \<^verbatim>\<open>scanUntilBoundary\<close>, iterated: the bytes of the part up to the first delimiter \<open>d\<close>
  that is followed as above, and the input from that delimiter on. A delimiter that is
  not followed so belongs to the part. Input that ends before a delimiter is an error.
\<close>

function scanUntilBoundary :: "string \<Rightarrow> string \<Rightarrow> (string \<times> string) option" where
  "scanUntilBoundary d xs =
     (if d = [] \<or> xs = [] then None
      else if prefix d xs then
        (if matchAfterPrefix (drop (length d) xs) then Some ([], xs)
         else map_option (\<lambda>(c, r). (d @ c, r)) (scanUntilBoundary d (drop (length d) xs)))
      else map_option (\<lambda>(c, r). (hd xs # c, r)) (scanUntilBoundary d (tl xs)))"
  by pat_completeness auto
termination
  by (relation "measure (\<lambda>(d, xs). length xs)") auto

declare scanUntilBoundary.simps [simp del]

text \<open>At the start of a part the delimiter needs no line break before it.\<close>

definition partContent :: "string \<Rightarrow> string \<Rightarrow> (string \<times> string) option" where
  "partContent b xs =
     (let dash = ''--'' @ b
      in if prefix dash xs then
           (if matchAfterPrefix (drop (length dash) xs) then Some ([], xs)
            else map_option (\<lambda>(c, r). (dash @ c, r))
                   (scanUntilBoundary (CRLF @ dash) (drop (length dash) xs)))
         else scanUntilBoundary (CRLF @ dash) xs)"

text \<open>The header lines up to the empty line, each \<^verbatim>\<open>Key: value\<close>.\<close>

definition strip_cr :: "string \<Rightarrow> string" where
  "strip_cr l = (if l \<noteq> [] \<and> last l = CHR 0x0D then butlast l else l)"

fun read_header_lines :: "string \<Rightarrow> string \<Rightarrow> (string list \<times> string) option" where
  "read_header_lines cur [] = None"
| "read_header_lines cur (c # cs) =
     (if c = CHR 0x0A then
        (let line = strip_cr (rev cur)
         in if line = [] then Some ([], cs)
            else map_option (\<lambda>(ls, r). (line # ls, r)) (read_header_lines [] cs))
      else read_header_lines (c # cur) cs)"

fun canonical_key :: "bool \<Rightarrow> string \<Rightarrow> bool" where
  "canonical_key up [] = True"
| "canonical_key up (c # cs) =
     (let n = (of_char c :: nat)
      in if c = CHR ''-'' then canonical_key True cs
         else if 48 \<le> n \<and> n \<le> 57 then canonical_key False cs
         else if up then 65 \<le> n \<and> n \<le> 90 \<and> canonical_key False cs
         else 97 \<le> n \<and> n \<le> 122 \<and> canonical_key False cs)"

definition header_key :: "string \<Rightarrow> string" where
  "header_key l = takeWhile (\<lambda>c. c \<noteq> CHR '':'') l"

definition header_value :: "string \<Rightarrow> string" where
  "header_value l =
     rev (dropWhile lwsp (rev (dropWhile lwsp (drop (length (header_key l) + 1) l))))"

definition header_line_ok :: "string \<Rightarrow> bool" where
  "header_line_ok l =
     (header_key l \<noteq> [] \<and> length (header_key l) < length l \<and> canonical_key True (header_key l))"

definition ReadMIMEHeader :: "string \<Rightarrow> ((string \<times> string) list \<times> string) option" where
  "ReadMIMEHeader xs =
     (case read_header_lines [] xs of
        None \<Rightarrow> None
      | Some (ls, rest) \<Rightarrow>
          if list_all header_line_ok ls
          then Some (map (\<lambda>l. (header_key l, header_value l)) ls, rest)
          else None)"

text \<open>
  The first \<^verbatim>\<open>NextPart\<close> with \<^verbatim>\<open>ReadAll\<close> of the part: its headers, its content, and
  the input that is left. \<open>NextPart_EOF\<close>: the next \<^verbatim>\<open>NextPart\<close> returns \<^verbatim>\<open>io.EOF\<close>,
  for what is left is the line break and the closing delimiter line.
\<close>

definition NextPart :: "string \<Rightarrow> string \<Rightarrow> ((string \<times> string) list \<times> string \<times> string) option" where
  "NextPart b body =
     (let dash = ''--'' @ b
      in if \<not> prefix (dash @ CRLF) body then None
         else (case ReadMIMEHeader (drop (length dash + 2) body) of
                 None \<Rightarrow> None
               | Some (hs, xs) \<Rightarrow>
                   (case partContent b xs of
                      None \<Rightarrow> None
                    | Some (content, rest) \<Rightarrow> Some (hs, content, rest))))"

definition NextPart_EOF :: "string \<Rightarrow> string \<Rightarrow> bool" where
  "NextPart_EOF b rest =
     (let fin = ''--'' @ b @ ''--''
      in prefix CRLF rest \<and> prefix fin (drop 2 rest)
         \<and> (let t = dropWhile lwsp (drop (2 + length fin) rest) in t = [] \<or> prefix CRLF t))"

subsection \<open>What the description of the package says, as definitions\<close>

text \<open>
  The query parameters in their fixed order: \<^verbatim>\<open>output_type=2\<close>, \<^verbatim>\<open>api_key\<close>,
  \<^verbatim>\<open>numres\<close>, then \<^verbatim>\<open>testmode=1\<close> only in test mode, \<^verbatim>\<open>dbmask\<close> and \<^verbatim>\<open>dbmaski\<close> only
  when not zero, \<^verbatim>\<open>url\<close>, percent-encoded, only when not empty; and a query string as the
  parameters joined by \<^verbatim>\<open>&\<close>.
\<close>

definition spec_params :: "Client \<Rightarrow> SearchRequest \<Rightarrow> (string \<times> string) list" where
  "spec_params c r =
     [(''output_type'', ''2''), (''api_key'', APIKey c), (''numres'', FormatUint (unat (NumRes r)))]
     @ (if TestMode r then [(''testmode'', ''1'')] else [])
     @ (if DBMask r \<noteq> 0 then [(''dbmask'', FormatUint (unat (DBMask r)))] else [])
     @ (if DBMaskI r \<noteq> 0 then [(''dbmaski'', FormatUint (unat (DBMaskI r)))] else [])
     @ (if URL r \<noteq> [] then [(''url'', QueryEscape (URL r))] else [])"

fun render_query :: "(string \<times> string) list \<Rightarrow> string" where
  "render_query [] = []"
| "render_query [(k, v)] = k @ ''='' @ v"
| "render_query ((k, v) # kv # kvs) = k @ ''='' @ v @ ''&'' @ render_query (kv # kvs)"

text \<open>
  The members of an object that name the field number \<open>i\<close> of a struct, in order; the
  members that name no field are the unknown siblings.
\<close>

definition members_of :: "string list \<Rightarrow> nat \<Rightarrow> (string \<times> json) list \<Rightarrow> json list" where
  "members_of names i ms = map snd (filter (\<lambda>(k, v). find_field names k = Some i) ms)"


text \<open>
  A value that is valid for a field of the Danbooru schema: a number that is an integer
  for \<^verbatim>\<open>danbooru_id\<close>, a string for the text fields, an array of strings for \<^verbatim>\<open>ext_urls\<close>,
  and \<^verbatim>\<open>null\<close> for each of them.
\<close>

fun fits_int :: "json \<Rightarrow> bool" where
  "fits_int JNull = True"
| "fits_int (JNumber lit) = (is_number_literal lit \<and> ParseInt lit \<noteq> None)"
| "fits_int v = False"

fun fits_string :: "json \<Rightarrow> bool" where
  "fits_string JNull = True"
| "fits_string (JString s) = True"
| "fits_string v = False"


text \<open>
  The value a field takes from a member that names it, given the value it has: the
  number, the string, the strings of the array; \<^verbatim>\<open>null\<close> keeps a number and a string
  as they are, so gives the zero value to a field that no member has set, and also
  empties a list. The elements of an array are taken in the same way, and a \<^verbatim>\<open>null\<close>
  among them keeps what an earlier array of the same field left at its place.
\<close>

fun int_step :: "int \<Rightarrow> json \<Rightarrow> int" where
  "int_step cur (JNumber lit) = (case ParseInt lit of Some n \<Rightarrow> n | None \<Rightarrow> cur)"
| "int_step cur v = cur"

fun string_step :: "string \<Rightarrow> json \<Rightarrow> string" where
  "string_step cur (JString s) = s"
| "string_step cur v = cur"

fun merge :: "('a \<Rightarrow> json \<Rightarrow> 'a) \<Rightarrow> 'a \<Rightarrow> 'a list \<Rightarrow> json list \<Rightarrow> 'a list" where
  "merge step zero store [] = []"
| "merge step zero store (v # vs) =
     step (case store of [] \<Rightarrow> zero | x # xs \<Rightarrow> x) v # merge step zero (tl store) vs"

fun list_step ::
  "('a \<Rightarrow> json \<Rightarrow> 'a) \<Rightarrow> 'a \<Rightarrow> 'a list \<times> 'a list \<Rightarrow> json \<Rightarrow> 'a list \<times> 'a list" where
  "list_step step zero (elems, spare) (JArray vs) =
     (if vs = [] then ([], [])
      else (merge step zero (elems @ spare) vs, drop (length vs) (elems @ spare)))"
| "list_step step zero (elems, spare) v = ([], [])"










text \<open>
  The names of the fields of the response's structs, as their tags give them, and the
  members of an object that name a field given by its name.
\<close>

definition header_names :: "string list" where
  "header_names = [''status'', ''results_requested'', ''results_returned'', ''short_remaining'',
     ''long_remaining'', ''short_limit'', ''Long_limit'', ''minimum_similarity'']"

definition result_header_names :: "string list" where
  "result_header_names = [''index_name'', ''index_id'', ''thumbnail'', ''similarity'']"

definition result_names :: "string list" where
  "result_names = [''header'', ''data'']"

definition response_names :: "string list" where
  "response_names = [''header'', ''results'']"

definition members_named :: "string list \<Rightarrow> string \<Rightarrow> (string \<times> json) list \<Rightarrow> json list" where
  "members_named names n ms =
     (case find_index (\<lambda>x. x = n) names of Some i \<Rightarrow> members_of names i ms | None \<Rightarrow> [])"

text \<open>
  The same for the response as for the Danbooru data: the values valid for a number
  given as a string (\<^verbatim>\<open>short_limit\<close>, \<^verbatim>\<open>Long_limit\<close>, \<^verbatim>\<open>similarity\<close>) and for a
  \<^verbatim>\<open>float64\<close>, the value a field takes from a member, and for each struct the objects
  valid for it and the value it takes from one, field by field.
\<close>

fun fits_int_string :: "json \<Rightarrow> bool" where
  "fits_int_string JNull = True"
| "fits_int_string (JString s) = (s = ''null'' \<or> (starts_number s \<and> ParseInt s \<noteq> None))"
| "fits_int_string v = False"

fun fits_float :: "(string \<Rightarrow> 'f option) \<Rightarrow> json \<Rightarrow> bool" where
  "fits_float pf JNull = True"
| "fits_float pf (JNumber lit) = (is_number_literal lit \<and> pf lit \<noteq> None)"
| "fits_float pf v = False"

fun fits_float_string :: "(string \<Rightarrow> 'f option) \<Rightarrow> json \<Rightarrow> bool" where
  "fits_float_string pf JNull = True"
| "fits_float_string pf (JString s) = (s = ''null'' \<or> (starts_number s \<and> pf s \<noteq> None))"
| "fits_float_string pf v = False"

fun int_string_step :: "int \<Rightarrow> json \<Rightarrow> int" where
  "int_string_step cur (JString s) =
     (if s = ''null'' then cur else case ParseInt s of Some n \<Rightarrow> n | None \<Rightarrow> cur)"
| "int_string_step cur v = cur"

fun float_step :: "(string \<Rightarrow> 'f option) \<Rightarrow> 'f \<Rightarrow> json \<Rightarrow> 'f" where
  "float_step pf cur (JNumber lit) = (case pf lit of Some x \<Rightarrow> x | None \<Rightarrow> cur)"
| "float_step pf cur v = cur"

fun float_string_step :: "(string \<Rightarrow> 'f option) \<Rightarrow> 'f \<Rightarrow> json \<Rightarrow> 'f" where
  "float_string_step pf cur (JString s) =
     (if s = ''null'' then cur else case pf s of Some x \<Rightarrow> x | None \<Rightarrow> cur)"
| "float_string_step pf cur v = cur"

definition fits_Header :: "(string \<Rightarrow> 'f option) \<Rightarrow> (string \<times> json) list \<Rightarrow> bool" where
  "fits_Header pf ms =
     (list_all fits_int (members_of header_names 0 ms)
      \<and> list_all fits_int (members_of header_names 1 ms)
      \<and> list_all fits_int (members_of header_names 2 ms)
      \<and> list_all fits_int (members_of header_names 3 ms)
      \<and> list_all fits_int (members_of header_names 4 ms)
      \<and> list_all fits_int_string (members_of header_names 5 ms)
      \<and> list_all fits_int_string (members_of header_names 6 ms)
      \<and> list_all (fits_float pf) (members_of header_names 7 ms))"

fun fits_header :: "(string \<Rightarrow> 'f option) \<Rightarrow> json \<Rightarrow> bool" where
  "fits_header pf JNull = True"
| "fits_header pf (JObject ms) = fits_Header pf ms"
| "fits_header pf v = False"

definition Header_from ::
  "(string \<Rightarrow> 'f option) \<Rightarrow> 'f SearchHeader \<Rightarrow> (string \<times> json) list \<Rightarrow> 'f SearchHeader" where
  "Header_from pf h ms =
     \<lparr>Status = foldl int_step (Status h) (members_of header_names 0 ms),
      ResultsRequested = foldl int_step (ResultsRequested h) (members_of header_names 1 ms),
      ResultsReturned = foldl int_step (ResultsReturned h) (members_of header_names 2 ms),
      ShortRemaining = foldl int_step (ShortRemaining h) (members_of header_names 3 ms),
      LongRemaining = foldl int_step (LongRemaining h) (members_of header_names 4 ms),
      ShortLimit = foldl int_string_step (ShortLimit h) (members_of header_names 5 ms),
      LongLimit = foldl int_string_step (LongLimit h) (members_of header_names 6 ms),
      MinimumSimilarity = foldl (float_step pf) (MinimumSimilarity h) (members_of header_names 7 ms)\<rparr>"

fun header_step :: "(string \<Rightarrow> 'f option) \<Rightarrow> 'f SearchHeader \<Rightarrow> json \<Rightarrow> 'f SearchHeader" where
  "header_step pf h (JObject ms) = Header_from pf h ms"
| "header_step pf h v = h"

definition fits_ResultHeader :: "(string \<Rightarrow> 'f option) \<Rightarrow> (string \<times> json) list \<Rightarrow> bool" where
  "fits_ResultHeader pf ms =
     (list_all fits_string (members_of result_header_names 0 ms)
      \<and> list_all fits_int (members_of result_header_names 1 ms)
      \<and> list_all fits_string (members_of result_header_names 2 ms)
      \<and> list_all (fits_float_string pf) (members_of result_header_names 3 ms))"

fun fits_result_header :: "(string \<Rightarrow> 'f option) \<Rightarrow> json \<Rightarrow> bool" where
  "fits_result_header pf JNull = True"
| "fits_result_header pf (JObject ms) = fits_ResultHeader pf ms"
| "fits_result_header pf v = False"

definition ResultHeader_from ::
  "(string \<Rightarrow> 'f option) \<Rightarrow> 'f SearchResultHeader \<Rightarrow> (string \<times> json) list
     \<Rightarrow> 'f SearchResultHeader" where
  "ResultHeader_from pf h ms =
     \<lparr>IndexName = foldl string_step (IndexName h) (members_of result_header_names 0 ms),
      IndexID = foldl int_step (IndexID h) (members_of result_header_names 1 ms),
      Thumbnail = foldl string_step (Thumbnail h) (members_of result_header_names 2 ms),
      Similarity = foldl (float_string_step pf) (Similarity h) (members_of result_header_names 3 ms)\<rparr>"

fun result_header_step ::
  "(string \<Rightarrow> 'f option) \<Rightarrow> 'f SearchResultHeader \<Rightarrow> json \<Rightarrow> 'f SearchResultHeader" where
  "result_header_step pf h (JObject ms) = ResultHeader_from pf h ms"
| "result_header_step pf h v = h"

fun fits_result :: "(string \<Rightarrow> 'f option) \<Rightarrow> json \<Rightarrow> bool" where
  "fits_result pf JNull = True"
| "fits_result pf (JObject ms) = list_all (fits_result_header pf) (members_of result_names 0 ms)"
| "fits_result pf v = False"

fun result_step :: "(string \<Rightarrow> 'f option) \<Rightarrow> 'f SearchResult \<Rightarrow> json \<Rightarrow> 'f SearchResult" where
  "result_step pf r (JObject ms) =
     \<lparr>ResultHeader = foldl (result_header_step pf) (ResultHeader r) (members_of result_names 0 ms),
      Data = foldl (\<lambda>d v. WellFormed v) (Data r) (members_of result_names 1 ms)\<rparr>"
| "result_step pf r v = r"

fun fits_results :: "(string \<Rightarrow> 'f option) \<Rightarrow> json \<Rightarrow> bool" where
  "fits_results pf JNull = True"
| "fits_results pf (JArray vs) = list_all (fits_result pf) vs"
| "fits_results pf v = False"

definition fits_Response :: "(string \<Rightarrow> 'f option) \<Rightarrow> (string \<times> json) list \<Rightarrow> bool" where
  "fits_Response pf ms =
     (list_all (fits_header pf) (members_of response_names 0 ms)
      \<and> list_all (fits_results pf) (members_of response_names 1 ms))"

definition spec_Response ::
  "(string \<Rightarrow> 'f option) \<Rightarrow> 'f \<Rightarrow> (string \<times> json) list \<Rightarrow> 'f SearchResponse" where
  "spec_Response pf z ms =
     \<lparr>Header = foldl (header_step pf) (zero_SearchHeader z) (members_of response_names 0 ms),
      Results = fst (foldl (list_step (result_step pf) (zero_SearchResult z)) ([], [])
                      (members_of response_names 1 ms))\<rparr>"

text \<open>The request a call of \<^verbatim>\<open>requestForSearch\<close> returned, when it returned one and no error.\<close>

definition request_of :: "(Request option \<times> go_error option) outcome \<Rightarrow> Request option" where
  "request_of out = (case out of Returns (Some req, None) \<Rightarrow> Some req | _ \<Rightarrow> None)"

subsection \<open>Test doubles\<close>

text \<open>
  A client as in the package's test (\<^verbatim>\<open>https://example.com\<close>, key \<^verbatim>\<open>amiya\<close>) whose
  transport gives one fixed answer; a boundary of 60 hexadecimal digits; a \<^verbatim>\<open>net/http\<close>
  that accepts every URL; an \<^verbatim>\<open>encoding/json\<close> whose \<^verbatim>\<open>float64\<close> is kept as the literal
  parsed.
\<close>

definition example_boundary :: string where
  "example_boundary = ''0123456789abcdef0123456789abcdef0123456789abcdef0123456789ab''"

definition test_http :: net_http where
  "test_http = \<lparr>NewRequestOK = (\<lambda>m u. True), RandomBoundary = example_boundary\<rparr>"

definition test_json :: "string encoding_json" where
  "test_json = \<lparr>ParseFloat = (\<lambda>s. Some s), FloatZero = ''0'',
     ErrorText = (\<lambda>t v. ''json: cannot unmarshal into Go value of type '' @ t)\<rparr>"

definition spy_client :: "go_error + Response \<Rightarrow> Client" where
  "spy_client answer = \<lparr>C_Do = (\<lambda>req. answer), Service = ''https://example.com'', APIKey = ''amiya''\<rparr>"

definition plain_request :: SearchRequest where
  "plain_request = \<lparr>URL = [], ImageBytes = None, TestMode = False, DBMask = 0, DBMaskI = 0,
     NumRes = 16\<rparr>"

definition image_request :: SearchRequest where
  "image_request = \<lparr>URL = [], ImageBytes = Some (Reader ''eyjafjalla'' None), TestMode = False,
     DBMask = 0, DBMaskI = 0, NumRes = 0\<rparr>"


definition too_many :: Response where
  "too_many = \<lparr>StatusCode = 429, StatusText = ''429 Too Many Requests'',
     RespBody = Reader no_bytes None\<rparr>"

text \<open>The payload of the package's test of \<^verbatim>\<open>AsDanbooru\<close>.\<close>

definition test_payload :: "(string \<times> json) list" where
  "test_payload =
     [(''source'', JString ''http://img10.pixiv.net/img/howard19862002/12897460.jpg''),
      (''characters'', JString ''elis (touhou), kikuri (touhou), konngara, mima, sariel, shingyoku, shingyoku (male), yuugenmagan''),
      (''material'', JString ''highly responsive to prayers, touhou, touhou (pc-98)''),
      (''creator'', JString ''nichimatsu seri''),
      (''danbooru_id'', JNumber ''736634''),
      (''ext_urls'', JArray [JString ''https://danbooru.donmai.us/post/show/736634''])]"







text \<open>
  A response body as the service sends it: the header with its eight fields, the limits
  and the similarity as strings, the other numbers as numbers, and the results, each a
  header and the data. The key of the long limit is a parameter: the tag writes
  \<^verbatim>\<open>Long_limit\<close>, and a key names a field up to the case of its letters.
\<close>

definition header_json ::
  "string \<Rightarrow> json \<Rightarrow> json \<Rightarrow> json \<Rightarrow> json \<Rightarrow> json \<Rightarrow> json \<Rightarrow> json \<Rightarrow> json \<Rightarrow> json" where
  "header_json lk st rq rr srem lrem slim llim msim =
     JObject [(''status'', st), (''results_requested'', rq), (''results_returned'', rr),
              (''short_remaining'', srem), (''long_remaining'', lrem),
              (''short_limit'', slim), (lk, llim), (''minimum_similarity'', msim)]"

definition result_json :: "json \<Rightarrow> json \<Rightarrow> json \<Rightarrow> json \<Rightarrow> json \<Rightarrow> json" where
  "result_json name ident thumb sim payload =
     JObject [(''header'', JObject [(''similarity'', sim), (''thumbnail'', thumb),
                                    (''index_id'', ident), (''index_name'', name)]),
              (''data'', payload)]"

definition response_json :: "json \<Rightarrow> json list \<Rightarrow> json" where
  "response_json hdr results = JObject [(''header'', hdr), (''results'', JArray results)]"

text \<open>
  A result on the wire, as name, id, thumbnail, similarity and data, and what it is
  expected to decode to.
\<close>

type_synonym wire_result = "string \<times> string \<times> string \<times> string \<times> json"

definition wire_result_json :: "wire_result \<Rightarrow> json" where
  "wire_result_json w =
     (case w of (name, ident, thumb, sim, payload) \<Rightarrow>
        result_json (JString name) (JNumber ident) (JString thumb) (JString sim) payload)"

definition wire_result_ok :: "(string \<Rightarrow> 'f option) \<Rightarrow> wire_result \<Rightarrow> bool" where
  "wire_result_ok pf w =
     (case w of (name, ident, thumb, sim, payload) \<Rightarrow>
        is_number_literal ident \<and> ParseInt ident \<noteq> None
        \<and> starts_number sim \<and> pf sim \<noteq> None)"

definition wire_result_value :: "(string \<Rightarrow> 'f option) \<Rightarrow> wire_result \<Rightarrow> 'f SearchResult" where
  "wire_result_value pf w =
     (case w of (name, ident, thumb, sim, payload) \<Rightarrow>
        \<lparr>ResultHeader = \<lparr>IndexName = name, IndexID = the (ParseInt ident), Thumbnail = thumb,
                          Similarity = the (pf sim)\<rparr>,
         Data = WellFormed payload\<rparr>)"

text \<open>The same for the header: its eight values as they stand on the wire.\<close>

type_synonym wire_header =
  "string \<times> string \<times> string \<times> string \<times> string \<times> string \<times> string \<times> string"

definition wire_header_json :: "string \<Rightarrow> wire_header \<Rightarrow> json" where
  "wire_header_json lk h =
     (case h of (st, rq, rr, srem, lrem, sl, ll, ms) \<Rightarrow>
        header_json lk (JNumber st) (JNumber rq) (JNumber rr) (JNumber srem) (JNumber lrem)
          (JString sl) (JString ll) (JNumber ms))"

definition wire_header_ok :: "(string \<Rightarrow> 'f option) \<Rightarrow> wire_header \<Rightarrow> bool" where
  "wire_header_ok pf h =
     (case h of (st, rq, rr, srem, lrem, sl, ll, ms) \<Rightarrow>
        list_all (\<lambda>lit. is_number_literal lit \<and> ParseInt lit \<noteq> None) [st, rq, rr, srem, lrem]
        \<and> list_all (\<lambda>s. starts_number s \<and> ParseInt s \<noteq> None) [sl, ll]
        \<and> is_number_literal ms \<and> pf ms \<noteq> None)"

definition wire_header_value :: "(string \<Rightarrow> 'f option) \<Rightarrow> wire_header \<Rightarrow> 'f SearchHeader" where
  "wire_header_value pf h =
     (case h of (st, rq, rr, srem, lrem, sl, ll, ms) \<Rightarrow>
        \<lparr>Status = the (ParseInt st), ResultsRequested = the (ParseInt rq),
         ResultsReturned = the (ParseInt rr), ShortRemaining = the (ParseInt srem),
         LongRemaining = the (ParseInt lrem), ShortLimit = the (ParseInt sl),
         LongLimit = the (ParseInt ll), MinimumSimilarity = the (pf ms)\<rparr>)"

text \<open>
  Modelled from the spec: the sample response \<^verbatim>\<open>testdata/response.json\<close> of the
  package's test is not among the sources. It is given here by what the test expects of
  it and what the description says of it: the eight header fields, the limits as strings,
  and one result, its similarity a string and its data the Danbooru payload.
\<close>

definition sample_header :: "(string \<times> json) list" where
  "sample_header =
     [(''status'', JNumber ''0''), (''results_requested'', JNumber ''16''),
      (''results_returned'', JNumber ''16''), (''short_remaining'', JNumber ''5''),
      (''long_remaining'', JNumber ''199''), (''short_limit'', JString ''6''),
      (''Long_limit'', JString ''200''), (''minimum_similarity'', JNumber ''24.6'')]"

definition sample_result_header :: "(string \<times> json) list" where
  "sample_result_header =
     [(''similarity'', JString ''18.71''),
      (''thumbnail'', JString ''https://img3.saucenao.com/booru/c/f/cf735b2a59302bf96aac3960c4e075a1_0.jpg''),
      (''index_id'', JNumber ''9''),
      (''index_name'', JString ''Index #9: Danbooru - cf735b2a59302bf96aac3960c4e075a1_0.jpg'')]"

definition sample_result :: "(string \<times> json) list" where
  "sample_result = [(''header'', JObject sample_result_header), (''data'', JObject test_payload)]"

definition sample_members :: "(string \<times> json) list" where
  "sample_members = [(''header'', JObject sample_header), (''results'', JArray [JObject sample_result])]"

definition sample_response :: json where
  "sample_response = JObject sample_members"

text \<open>What the test expects the sample to decode to, a \<^verbatim>\<open>float64\<close> given by its literal.\<close>

definition sample_value :: "string SearchResponse" where
  "sample_value =
     \<lparr>Header = \<lparr>Status = 0, ResultsRequested = 16, ResultsReturned = 16, ShortRemaining = 5,
                 LongRemaining = 199, ShortLimit = 6, LongLimit = 200,
                 MinimumSimilarity = ''24.6''\<rparr>,
      Results = [\<lparr>ResultHeader =
                    \<lparr>IndexName = ''Index #9: Danbooru - cf735b2a59302bf96aac3960c4e075a1_0.jpg'',
                     IndexID = 9,
                     Thumbnail = ''https://img3.saucenao.com/booru/c/f/cf735b2a59302bf96aac3960c4e075a1_0.jpg'',
                     Similarity = ''18.71''\<rparr>,
                  Data = WellFormed (JObject test_payload)\<rparr>]\<rparr>"

text \<open>A body whose \<^verbatim>\<open>short_limit\<close> is a number, not a string.\<close>

definition raw_limit_members :: "(string \<times> json) list" where
  "raw_limit_members =
     [(''header'', JObject [(''status'', JNumber ''0''), (''short_limit'', JNumber ''6'')]),
      (''results'', JArray [])]"

section \<open>Properties\<close>

subsection \<open>The rendered URL\<close>

lemma render_query_Cons:
  "render_query ((k, v) # kvs) = k @ ''='' @ v @ (if kvs = [] then [] else ''&'' @ render_query kvs)"
  by (cases kvs) auto

lemma searchURL_spec: "searchURL c r = Service c @ ''/search.php?'' @ render_query (spec_params c r)"
  by (simp add: searchURL_def spec_params_def render_query_Cons)

lemma FormatUint_16: "FormatUint 16 = ''16''"
  by (simp add: FormatUint.simps digit_char_def)

lemma FormatUint_0: "FormatUint 0 = ''0''"
  by (simp add: FormatUint.simps digit_char_def)

text \<open>
  Claim C1. For a request without image bytes, \<^verbatim>\<open>requestForSearch\<close> renders a GET with no
  body to \<^verbatim>\<open>{service}/search.php\<close> whose query string is the parameters of
  \<open>spec_params\<close> in their fixed order (\<^verbatim>\<open>output_type=2\<close>, \<^verbatim>\<open>api_key\<close>, \<^verbatim>\<open>numres\<close>, then
  \<^verbatim>\<open>testmode=1\<close>, \<^verbatim>\<open>dbmask\<close>, \<^verbatim>\<open>dbmaski\<close> and the percent-encoded \<^verbatim>\<open>url\<close>, each only when
  set); \<^verbatim>\<open>http.NewRequestWithContext\<close> rejecting the URL is the one other outcome, a panic.
  With 16 results, no test mode, no masks and no URL the query string is
  \<^verbatim>\<open>output_type=2&api_key=<key>&numres=16\<close>.
\<close>

theorem searchURL_get:
  "ImageBytes r = None \<Longrightarrow>
   requestForSearch h c r =
     (if NewRequestOK h ''GET'' (searchURL c r)
      then Returns (Some \<lparr>Method = ''GET'',
             RawURL = Service c @ ''/search.php?'' @ render_query (spec_params c r),
             ReqBody = None, ContentType = None\<rparr>, None)
      else Panics)
   \<and> (NumRes r = 16 \<and> \<not> TestMode r \<and> DBMask r = 0 \<and> DBMaskI r = 0 \<and> URL r = [] \<longrightarrow>
        searchURL c r = Service c @ ''/search.php?output_type=2&api_key='' @ APIKey c @ ''&numres=16'')"
proof
  assume "ImageBytes r = None"
  then show "requestForSearch h c r =
     (if NewRequestOK h ''GET'' (searchURL c r)
      then Returns (Some \<lparr>Method = ''GET'',
             RawURL = Service c @ ''/search.php?'' @ render_query (spec_params c r),
             ReqBody = None, ContentType = None\<rparr>, None)
      else Panics)"
    unfolding requestForSearch_def searchURL_spec by simp
next
  show "NumRes r = 16 \<and> \<not> TestMode r \<and> DBMask r = 0 \<and> DBMaskI r = 0 \<and> URL r = [] \<longrightarrow>
        searchURL c r = Service c @ ''/search.php?output_type=2&api_key='' @ APIKey c @ ''&numres=16''"
    by (simp add: searchURL_def FormatUint_16)
qed

theorem searchURL_get_witness:
  "ImageBytes plain_request = None \<and> requestForSearch test_http (spy_client (Inl QuotaError)) plain_request =
     Returns (Some \<lparr>Method = ''GET'',
        RawURL = ''https://example.com/search.php?output_type=2&api_key=amiya&numres=16'',
        ReqBody = None, ContentType = None\<rparr>, None)"
  using searchURL_get [of plain_request test_http "spy_client (Inl QuotaError)"]
  by (simp add: plain_request_def test_http_def spy_client_def spec_params_def FormatUint_16)

lemma upperhex_nth: "n < 16 \<Longrightarrow> upperhex ! n \<in> set ''0123456789ABCDEF''"
  unfolding upperhex_def by (rule nth_mem) simp

lemma of_char_div16: "(of_char c :: nat) div 16 < 16"
proof -
  have "(of_char c :: nat) < 256" by simp
  then show ?thesis by arith
qed

lemma hex_safe: "x \<in> set ''0123456789ABCDEF'' \<Longrightarrow> \<not> shouldEscape x"
  apply (simp only: set_simps insert_iff empty_iff)
  apply (elim disjE)
  apply (simp_all add: shouldEscape_def is_alnum_def)
  done

lemma QueryEscape_chars:
  "ch \<in> set (QueryEscape u) \<Longrightarrow> \<not> shouldEscape ch \<or> ch = CHR ''+'' \<or> ch = CHR ''%''"
proof (induction u)
  case Nil
  then show ?case by simp
next
  case (Cons c cs)
  have h1: "\<not> shouldEscape (upperhex ! ((of_char c :: nat) div 16))"
    by (rule hex_safe, rule upperhex_nth, rule of_char_div16)
  have h2: "\<not> shouldEscape (upperhex ! ((of_char c :: nat) mod 16))"
    by (rule hex_safe, rule upperhex_nth) simp
  show ?case
  proof (cases "c = CHR '' ''")
    case True
    with Cons show ?thesis by auto
  next
    case False
    note sp = this
    show ?thesis
    proof (cases "shouldEscape c")
      case True
      with sp Cons h1 h2 show ?thesis by auto
    next
      case False
      with sp Cons show ?thesis by auto
    qed
  qed
qed

lemma QueryEscape_no_meta:
  "CHR ''&'' \<notin> set (QueryEscape u) \<and> CHR ''='' \<notin> set (QueryEscape u)"
proof -
  have "shouldEscape (CHR ''&'')" "shouldEscape (CHR ''='')"
    by (simp_all add: shouldEscape_def is_alnum_def)
  then show ?thesis using QueryEscape_chars by blast
qed

text \<open>
  Claim C10. Only the image URL is percent-encoded. The service and the API key are
  written to the URL as they are, before a rest that does not depend on them, so a key
  with \<^verbatim>\<open>&\<close> or \<^verbatim>\<open>=\<close> shows these bytes in the URL, while the encoded image URL has
  neither: with the key and the image URL both \<^verbatim>\<open>a&b=c\<close>, the URL ends in
  \<^verbatim>\<open>api_key=a&b=c&numres=16&url=a%26b%3Dc\<close>.
\<close>

theorem api_key_verbatim:
  "(\<exists>rest. \<forall>c. searchURL c r = Service c @ ''/search.php?output_type=2&api_key='' @ APIKey c @ rest)
   \<and> CHR ''&'' \<notin> set (QueryEscape (URL r)) \<and> CHR ''='' \<notin> set (QueryEscape (URL r))
   \<and> searchURL (c\<lparr>APIKey := ''a&b=c''\<rparr>) (r\<lparr>NumRes := 16, TestMode := False, DBMask := 0, DBMaskI := 0, URL := ''a&b=c''\<rparr>)
       = Service c @ ''/search.php?output_type=2&api_key=a&b=c&numres=16&url=a%26b%3Dc''"
proof (intro conjI)
  show "\<exists>rest. \<forall>c. searchURL c r = Service c @ ''/search.php?output_type=2&api_key='' @ APIKey c @ rest"
    by (rule exI [where x = "''&numres='' @ FormatUint (unat (NumRes r))
     @ (if TestMode r then ''&testmode=1'' else [])
     @ (if DBMask r \<noteq> 0 then ''&dbmask='' @ FormatUint (unat (DBMask r)) else [])
     @ (if DBMaskI r \<noteq> 0 then ''&dbmaski='' @ FormatUint (unat (DBMaskI r)) else [])
     @ (if URL r \<noteq> [] then ''&url='' @ QueryEscape (URL r) else [])"]) (simp add: searchURL_def)
  show "CHR ''&'' \<notin> set (QueryEscape (URL r))" using QueryEscape_no_meta by blast
  show "CHR ''='' \<notin> set (QueryEscape (URL r))" using QueryEscape_no_meta by blast
  show "searchURL (c\<lparr>APIKey := ''a&b=c''\<rparr>) (r\<lparr>NumRes := 16, TestMode := False, DBMask := 0, DBMaskI := 0, URL := ''a&b=c''\<rparr>)
       = Service c @ ''/search.php?output_type=2&api_key=a&b=c&numres=16&url=a%26b%3Dc''"
    by (simp add: searchURL_def FormatUint_16 shouldEscape_def is_alnum_def upperhex_def)
qed

lemma url_param_iff: "''url'' \<in> set (map fst (spec_params c r)) \<longleftrightarrow> URL r \<noteq> []"
  by (cases "TestMode r"; cases "DBMask r = 0"; cases "DBMaskI r = 0"; cases "URL r = []")
     (simp_all add: spec_params_def)

text \<open>
  Claim C4, as amended. For a request with image bytes that can be read, the POST goes to
  the URL that \<^verbatim>\<open>searchURL\<close> gives for the request, the same as for the GET of a request
  with the same fields and no image: the query string is that of \<open>spec_params\<close>, and it
  has the \<^verbatim>\<open>url\<close> parameter exactly when the request's URL is not empty.
\<close>

theorem post_url:
  assumes "ImageBytes r = Some img" and "ReadAll img = Inr bs"
    and "NewRequestOK h ''POST'' (searchURL c r)"
  shows "map_option Method (request_of (requestForSearch h c r)) = Some ''POST''
    \<and> map_option RawURL (request_of (requestForSearch h c r))
        = Some (Service c @ ''/search.php?'' @ render_query (spec_params c r))
    \<and> searchURL c r = searchURL c (r\<lparr>ImageBytes := None\<rparr>)
    \<and> (''url'' \<in> set (map fst (spec_params c r)) \<longleftrightarrow> URL r \<noteq> [])"
proof (intro conjI)
  from assms have rq: "requestForSearch h c r =
      Returns (Some \<lparr>Method = ''POST'', RawURL = searchURL c r,
        ReqBody = Some (CreateFormFile (RandomBoundary h) ''file'' ''image'' @ bs
                        @ Close (RandomBoundary h)),
        ContentType = Some (FormDataContentType (RandomBoundary h))\<rparr>, None)"
    by (simp add: requestForSearch_def)
  show "map_option Method (request_of (requestForSearch h c r)) = Some ''POST''"
    by (simp add: rq request_of_def)
  show "map_option RawURL (request_of (requestForSearch h c r))
        = Some (Service c @ ''/search.php?'' @ render_query (spec_params c r))"
    by (simp add: rq request_of_def searchURL_spec)
  show "searchURL c r = searchURL c (r\<lparr>ImageBytes := None\<rparr>)"
    by (simp add: searchURL_def)
  show "''url'' \<in> set (map fst (spec_params c r)) \<longleftrightarrow> URL r \<noteq> []"
    by (rule url_param_iff)
qed

text \<open>
  Claim C4 as it was stated fails: with image bytes and the URL \<^verbatim>\<open>http://a\<close> both
  set, the POST's query string ends in \<^verbatim>\<open>&url=http%3A%2F%2Fa\<close>.
\<close>

theorem post_url_counterexample:
  "map_option Method (request_of (requestForSearch test_http (spy_client (Inl QuotaError))
       (image_request\<lparr>URL := ''http://a''\<rparr>))) = Some ''POST''
   \<and> map_option RawURL (request_of (requestForSearch test_http (spy_client (Inl QuotaError))
       (image_request\<lparr>URL := ''http://a''\<rparr>)))
     = Some ''https://example.com/search.php?output_type=2&api_key=amiya&numres=0&url=http%3A%2F%2Fa''"
  by (simp add: requestForSearch_def request_of_def image_request_def test_http_def
      spy_client_def searchURL_def FormatUint_0 shouldEscape_def is_alnum_def upperhex_def)

theorem post_url_witness:
  "ImageBytes image_request = Some (Reader ''eyjafjalla'' None)
   \<and> ReadAll (Reader ''eyjafjalla'' None) = Inr ''eyjafjalla''
   \<and> NewRequestOK test_http ''POST'' (searchURL (spy_client (Inl QuotaError)) image_request)
   \<and> map_option Method (request_of (requestForSearch test_http (spy_client (Inl QuotaError)) image_request))
       = Some ''POST''
   \<and> map_option RawURL (request_of (requestForSearch test_http (spy_client (Inl QuotaError)) image_request))
       = Some ''https://example.com/search.php?output_type=2&api_key=amiya&numres=0''
   \<and> ''url'' \<notin> set (map fst (spec_params (spy_client (Inl QuotaError)) image_request))"
proof -
  have a: "ImageBytes image_request = Some (Reader ''eyjafjalla'' None)"
    by (simp add: image_request_def)
  have b: "ReadAll (Reader ''eyjafjalla'' None) = Inr ''eyjafjalla''" by simp
  have c: "NewRequestOK test_http ''POST'' (searchURL (spy_client (Inl QuotaError)) image_request)"
    by (simp add: test_http_def)
  have d: "Service (spy_client (Inl QuotaError)) @ ''/search.php?''
      @ render_query (spec_params (spy_client (Inl QuotaError)) image_request)
      = ''https://example.com/search.php?output_type=2&api_key=amiya&numres=0''"
    by (simp add: spec_params_def spy_client_def image_request_def FormatUint_0)
  have e: "URL image_request = []" by (simp add: image_request_def)
  note th = post_url [OF a b c]
  from th have m: "map_option Method (request_of (requestForSearch test_http
      (spy_client (Inl QuotaError)) image_request)) = Some ''POST''" by (rule conjunct1)
  from th have u: "map_option RawURL (request_of (requestForSearch test_http
      (spy_client (Inl QuotaError)) image_request))
      = Some ''https://example.com/search.php?output_type=2&api_key=amiya&numres=0''"
    unfolding d by (elim conjE)
  from th e have n: "''url'' \<notin> set (map fst (spec_params (spy_client (Inl QuotaError)) image_request))"
    by blast
  from a b c m u n show ?thesis by (intro conjI)
qed

text \<open>
  Claim C8. A request with neither URL nor image bytes is not rejected:
  \<^verbatim>\<open>requestForSearch\<close> returns no error for it; it renders the GET with the parameters
  up to \<^verbatim>\<open>dbmaski\<close> and without a \<^verbatim>\<open>url\<close> parameter (or panics, when
  \<^verbatim>\<open>http.NewRequestWithContext\<close> rejects the URL of this client).
\<close>

theorem no_input_get:
  assumes "URL r = []" and "ImageBytes r = None"
  shows "requestForSearch h c r =
      (if NewRequestOK h ''GET'' (searchURL c r)
       then Returns (Some \<lparr>Method = ''GET'',
              RawURL = Service c @ ''/search.php?output_type=2&api_key='' @ APIKey c
                @ ''&numres='' @ FormatUint (unat (NumRes r))
                @ (if TestMode r then ''&testmode=1'' else [])
                @ (if DBMask r \<noteq> 0 then ''&dbmask='' @ FormatUint (unat (DBMask r)) else [])
                @ (if DBMaskI r \<noteq> 0 then ''&dbmaski='' @ FormatUint (unat (DBMaskI r)) else []),
              ReqBody = None, ContentType = None\<rparr>, None)
       else Panics)
    \<and> (\<forall>q e. requestForSearch h c r \<noteq> Returns (q, Some e))
    \<and> ''url'' \<notin> set (map fst (spec_params c r))"
  using assms url_param_iff [of c r] by (simp add: requestForSearch_def searchURL_def)

theorem no_input_get_witness:
  "URL plain_request = [] \<and> ImageBytes plain_request = None
   \<and> requestForSearch test_http (spy_client (Inl QuotaError)) plain_request =
       Returns (Some \<lparr>Method = ''GET'',
              RawURL = ''https://example.com/search.php?output_type=2&api_key=amiya&numres=16'',
              ReqBody = None, ContentType = None\<rparr>, None)"
proof -
  have a: "URL plain_request = []" and b: "ImageBytes plain_request = None"
    by (simp_all add: plain_request_def)
  have c: "NewRequestOK test_http ''GET'' u" for u by (simp add: test_http_def)
  from no_input_get [OF a b, of test_http "spy_client (Inl QuotaError)"] a b show ?thesis
    by (simp add: c) (simp add: plain_request_def spy_client_def FormatUint_16)
qed

subsection \<open>The search\<close>

text \<open>
  Claim C3. When the transport answers, \<^verbatim>\<open>Search\<close> goes on to read and decode the body
  exactly when the status is 200. Status 429 gives the error that wraps \<^verbatim>\<open>QuotaError\<close>,
  which \<^verbatim>\<open>errors.As\<close> finds by type; any other status gives a plain error whose message
  ends with the status text, in which \<^verbatim>\<open>errors.As\<close> finds no \<^verbatim>\<open>QuotaError\<close>.
\<close>

theorem Search_status:
  assumes "requestForSearch h c r = Returns (Some req, None)" and "C_Do c req = Inr resp"
  shows "fst (Search h j c r) = [req]
    \<and> (StatusCode resp = 200 \<longrightarrow>
         snd (Search h j c r) =
           (case ReadAll (RespBody resp) of
              Inl err \<Rightarrow> Returns (None, Some (ErrorString (''saucenao search: '' @ Error err)))
            | Inr d \<Rightarrow>
                (case Unmarshal_SearchResponse j d of
                   Inl err \<Rightarrow> Returns (None, Some (ErrorString (''saucenao search: '' @ Error err)))
                 | Inr sr \<Rightarrow> Returns (Some sr, None))))
    \<and> (StatusCode resp = 429 \<longrightarrow>
         snd (Search h j c r)
           = Returns (None, Some (WrapError ''saucenao search: rate limited'' QuotaError)))
    \<and> (StatusCode resp \<noteq> 200 \<and> StatusCode resp \<noteq> 429 \<longrightarrow>
         snd (Search h j c r)
           = Returns (None, Some (ErrorString (''saucenao search: unexpected status '' @ StatusText resp))))
    \<and> errors_As_QuotaError (WrapError ''saucenao search: rate limited'' QuotaError)
    \<and> \<not> errors_As_QuotaError (ErrorString (''saucenao search: unexpected status '' @ StatusText resp))"
  using assms by (simp add: Search_def Errorf_w_def Errorf_s_def split: sum.split)

lemma plain_get:
  "requestForSearch test_http (spy_client a) plain_request =
     Returns (Some \<lparr>Method = ''GET'',
        RawURL = ''https://example.com/search.php?output_type=2&api_key=amiya&numres=16'',
        ReqBody = None, ContentType = None\<rparr>, None)"
  by (simp add: requestForSearch_def plain_request_def test_http_def spy_client_def searchURL_def
      FormatUint_16)

theorem Search_status_witness:
  "requestForSearch test_http (spy_client (Inr too_many)) plain_request =
     Returns (Some \<lparr>Method = ''GET'',
        RawURL = ''https://example.com/search.php?output_type=2&api_key=amiya&numres=16'',
        ReqBody = None, ContentType = None\<rparr>, None)
   \<and> C_Do (spy_client (Inr too_many)) \<lparr>Method = ''GET'',
        RawURL = ''https://example.com/search.php?output_type=2&api_key=amiya&numres=16'',
        ReqBody = None, ContentType = None\<rparr> = Inr too_many
   \<and> StatusCode too_many = 429
   \<and> snd (Search test_http test_json (spy_client (Inr too_many)) plain_request)
        = Returns (None, Some (WrapError ''saucenao search: rate limited'' QuotaError))"
proof -
  have b: "C_Do (spy_client (Inr too_many)) \<lparr>Method = ''GET'',
        RawURL = ''https://example.com/search.php?output_type=2&api_key=amiya&numres=16'',
        ReqBody = None, ContentType = None\<rparr> = Inr too_many"
    by (simp add: spy_client_def)
  have s: "StatusCode too_many = 429" by (simp add: too_many_def)
  from Search_status [OF plain_get b, where j = test_json] s
  have "snd (Search test_http test_json (spy_client (Inr too_many)) plain_request)
        = Returns (None, Some (WrapError ''saucenao search: rate limited'' QuotaError))"
    by blast
  with plain_get b s show ?thesis by blast
qed

text \<open>
  Claim C9. When reading the image bytes fails, \<^verbatim>\<open>requestForSearch\<close> returns the reader's
  error and no request, and \<^verbatim>\<open>Search\<close> returns that error wrapped, with no request handed
  to the transport.
\<close>

theorem read_failure:
  assumes "ImageBytes r = Some (Reader bs (Some e))"
  shows "requestForSearch h c r = Returns (None, Some e)
    \<and> Search h j c r = ([], Returns (None, Some (WrapError (''saucenao search: '' @ Error e) e)))
    \<and> Unwrap (WrapError (''saucenao search: '' @ Error e) e) = Some e"
  using assms by (simp add: Search_def requestForSearch_def Errorf_w_def)

theorem read_failure_witness:
  "ImageBytes (image_request\<lparr>ImageBytes := Some (Reader ''eyja'' (Some (Foreign ''unexpected EOF'')))\<rparr>)
     = Some (Reader ''eyja'' (Some (Foreign ''unexpected EOF'')))
   \<and> Search test_http test_json (spy_client (Inr too_many))
        (image_request\<lparr>ImageBytes := Some (Reader ''eyja'' (Some (Foreign ''unexpected EOF'')))\<rparr>)
     = ([], Returns (None, Some (WrapError ''saucenao search: unexpected EOF'' (Foreign ''unexpected EOF''))))"
  using read_failure [of "image_request\<lparr>ImageBytes := Some (Reader ''eyja'' (Some (Foreign ''unexpected EOF'')))\<rparr>"
      "''eyja''" "Foreign ''unexpected EOF''" test_http "spy_client (Inr too_many)" test_json]
  by simp

subsection \<open>The multipart body\<close>

lemma not_prefix_delim:
  assumes d: "d = c0 # d'" and c0: "c0 \<notin> set d'" and ne: "bs \<noteq> []" and ns: "\<not> sublist d bs"
  shows "\<not> prefix d (bs @ d @ t)"
proof
  assume "prefix d (bs @ d @ t)"
  then have "prefix d bs \<or> (\<exists>us. d = bs @ us \<and> prefix us (d @ t))"
    by (simp only: prefix_append)
  then consider "prefix d bs" | us where "d = bs @ us" "prefix us (d @ t)"
    by blast
  then show False
  proof cases
    case 1
    then have "sublist d bs" by (rule prefix_imp_sublist)
    with ns show False by simp
  next
    case 2
    from ne obtain b' bs' where bs: "bs = b' # bs'" by (cases bs) auto
    with 2(1) d have d': "d' = bs' @ us" by simp
    show False
    proof (cases us)
      case Nil
      with 2(1) have "d = bs" by simp
      with ns show False by simp
    next
      case (Cons u us')
      with 2(2) d have "u = c0" by simp
      with Cons d' c0 show False by simp
    qed
  qed
qed

lemma scan_here:
  assumes "d \<noteq> []" and "matchAfterPrefix t"
  shows "scanUntilBoundary d (d @ t) = Some ([], d @ t)"
proof -
  have "scanUntilBoundary d (d @ t) =
     (if d = [] \<or> d @ t = [] then None
      else if prefix d (d @ t) then
        (if matchAfterPrefix (drop (length d) (d @ t)) then Some ([], d @ t)
         else map_option (\<lambda>(c, r). (d @ c, r)) (scanUntilBoundary d (drop (length d) (d @ t))))
      else map_option (\<lambda>(c, r). (hd (d @ t) # c, r)) (scanUntilBoundary d (tl (d @ t))))"
    by (rule scanUntilBoundary.simps)
  with assms show ?thesis by simp
qed

lemma scan_step:
  assumes "d \<noteq> []" and "\<not> prefix d (x # xs)"
  shows "scanUntilBoundary d (x # xs) = map_option (\<lambda>(c, r). (x # c, r)) (scanUntilBoundary d xs)"
proof -
  have "scanUntilBoundary d (x # xs) =
     (if d = [] \<or> x # xs = [] then None
      else if prefix d (x # xs) then
        (if matchAfterPrefix (drop (length d) (x # xs)) then Some ([], x # xs)
         else map_option (\<lambda>(c, r). (d @ c, r)) (scanUntilBoundary d (drop (length d) (x # xs))))
      else map_option (\<lambda>(c, r). (hd (x # xs) # c, r)) (scanUntilBoundary d (tl (x # xs))))"
    by (rule scanUntilBoundary.simps)
  with assms show ?thesis by simp
qed

lemma scan_delim:
  assumes d: "d = c0 # d'" and c0: "c0 \<notin> set d'" and ma: "matchAfterPrefix t"
  shows "\<not> sublist d bs \<Longrightarrow> scanUntilBoundary d (bs @ d @ t) = Some (bs, d @ t)"
proof (induction bs)
  case Nil
  from d have "d \<noteq> []" by simp
  then have "scanUntilBoundary d (d @ t) = Some ([], d @ t)" using ma by (rule scan_here)
  then show ?case by (simp only: append_Nil)
next
  case (Cons x xs)
  from d have ne: "d \<noteq> []" by simp
  have xne: "x # xs \<noteq> []" by simp
  have np: "\<not> prefix d ((x # xs) @ d @ t)"
    using d c0 xne Cons.prems by (rule not_prefix_delim)
  then have np': "\<not> prefix d (x # (xs @ d @ t))" unfolding append_Cons .
  have "sublist d xs \<Longrightarrow> sublist d (x # xs)"
    by (simp only: sublist_Cons_right) blast
  with Cons.prems have "\<not> sublist d xs" by blast
  then have ih: "scanUntilBoundary d (xs @ d @ t) = Some (xs, d @ t)" by (rule Cons.IH)
  have "scanUntilBoundary d (x # (xs @ d @ t))
      = map_option (\<lambda>(c, r). (x # c, r)) (scanUntilBoundary d (xs @ d @ t))"
    using ne np' by (rule scan_step)
  also have "\<dots> = Some (x # xs, d @ t)" by (simp only: ih option.map prod.case)
  finally show ?case unfolding append_Cons .
qed

lemma hex_char_plain:
  "c \<in> set ''0123456789abcdef'' \<Longrightarrow>
     c \<noteq> CHR 0x0D \<and> c \<noteq> CHR 0x0A \<and> c \<noteq> CHR ''-''
     \<and> c \<notin> set (''()<>@,;:'' @ [CHR 0x5C, CHR 0x22] @ ''/[]?= '')"
  apply (simp only: set_simps insert_iff empty_iff)
  apply (elim disjE)
  apply simp_all
  done

lemma random_boundary_chars:
  assumes "is_random_boundary b"
  shows "CHR 0x0D \<notin> set b" and "CHR 0x0A \<notin> set b" and "CHR ''-'' \<notin> set b"
    and "\<not> list_ex (\<lambda>c. c \<in> set (''()<>@,;:'' @ [CHR 0x5C, CHR 0x22] @ ''/[]?= '')) b"
proof -
  from assms have all: "\<forall>c\<in>set b. c \<in> set ''0123456789abcdef''"
    unfolding is_random_boundary_def list_all_iff by (rule conjunct2)
  show "CHR 0x0D \<notin> set b" using all hex_char_plain by blast
  show "CHR 0x0A \<notin> set b" using all hex_char_plain by blast
  show "CHR ''-'' \<notin> set b" using all hex_char_plain by blast
  show "\<not> list_ex (\<lambda>c. c \<in> set (''()<>@,;:'' @ [CHR 0x5C, CHR 0x22] @ ''/[]?= '')) b"
    unfolding list_ex_iff using all hex_char_plain by blast
qed

lemma content_type_random:
  "is_random_boundary b \<Longrightarrow> FormDataContentType b = ''multipart/form-data; boundary='' @ b"
  using random_boundary_chars(4) [of b] by (simp only: FormDataContentType_def if_False)

lemma Close_split: "Close b = (CHR 0x0D # CHR 0x0A # ''--'' @ b) @ (''--'' @ CRLF)"
  by (simp add: Close_def CRLF_def)

lemma sublist_drop_front: "sublist (ps @ d) bs \<Longrightarrow> sublist d bs"
proof -
  assume "sublist (ps @ d) bs"
  then obtain qs ss where "bs = qs @ (ps @ d) @ ss" by (auto simp only: sublist_def)
  then have "bs = (qs @ ps) @ d @ ss" by simp
  then show "sublist d bs" unfolding sublist_def by blast
qed

lemma partContent_roundtrip:
  assumes cr: "CHR 0x0D \<notin> set b" and ns: "\<not> sublist (''--'' @ b) bs"
  shows "partContent b (bs @ Close b) = Some (bs, Close b)"
proof -
  let ?dash = "''--'' @ b"
  let ?d = "CHR 0x0D # CHR 0x0A # ?dash"
  let ?t = "''--'' @ CRLF"
  have np: "\<not> prefix ?dash (bs @ Close b)"
  proof
    assume "prefix ?dash (bs @ Close b)"
    then have "prefix ?dash bs \<or> (\<exists>us. ?dash = bs @ us \<and> prefix us (Close b))"
      by (simp only: prefix_append)
    then consider "prefix ?dash bs" | us where "?dash = bs @ us" "prefix us (Close b)"
      by blast
    then show False
    proof cases
      case 1
      then have "sublist ?dash bs" by (rule prefix_imp_sublist)
      with ns show False by blast
    next
      case 2
      show False
      proof (cases us)
        case Nil
        with 2(1) have "bs = ?dash" by simp
        then have "sublist ?dash bs" by simp
        with ns show False by blast
      next
        case (Cons u us')
        with 2(2) have "u = CHR 0x0D" by (simp add: Close_def CRLF_def)
        with Cons have "CHR 0x0D \<in> set (bs @ us)" by simp
        with 2(1) have "CHR 0x0D \<in> set ?dash" by simp
        with cr show False by simp
      qed
    qed
  qed
  have c0: "CHR 0x0D \<notin> set (CHR 0x0A # ?dash)" using cr by simp
  have ma: "matchAfterPrefix ?t" by (simp add: matchAfterPrefix_def)
  have "sublist ([CHR 0x0D, CHR 0x0A] @ ?dash) bs \<Longrightarrow> sublist ?dash bs"
    by (rule sublist_drop_front)
  with ns have ns': "\<not> sublist ?d bs" by auto
  have "scanUntilBoundary ?d (bs @ ?d @ ?t) = Some (bs, ?d @ ?t)"
    using refl c0 ma ns' by (rule scan_delim)
  then have sc: "scanUntilBoundary (CRLF @ ?dash) (bs @ Close b) = Some (bs, Close b)"
    by (simp add: Close_def CRLF_def)
  from np sc show ?thesis
    by (simp only: partContent_def Let_def if_False)
qed

lemma NextPart_EOF_Close: "NextPart_EOF b (Close b)"
  by (simp add: NextPart_EOF_def Close_def CRLF_def lwsp_def)

lemma read_form_file_header:
  \<open>ReadMIMEHeader
     (''Content-Disposition: form-data; name="file"; filename="image"'' @ CRLF
      @ ''Content-Type: application/octet-stream'' @ CRLF @ CRLF @ rest)
   = Some ([(''Content-Disposition'', ''form-data; name="file"; filename="image"''),
            (''Content-Type'', ''application/octet-stream'')], rest)\<close>
  by (simp add: ReadMIMEHeader_def CRLF_def strip_cr_def header_line_ok_def header_key_def
      header_value_def lwsp_def)

lemma drop_all_append: "drop (length xs) (xs @ ys) = ys"
  by simp

lemma NextPart_form_file:
  assumes "partContent b xs = Some (content, rest)"
  shows \<open>NextPart b (CreateFormFile b ''file'' ''image'' @ xs)
    = Some ([(''Content-Disposition'', ''form-data; name="file"; filename="image"''),
             (''Content-Type'', ''application/octet-stream'')], content, rest)\<close>
proof -
  let ?h = \<open>''Content-Disposition: form-data; name="file"; filename="image"'' @ CRLF
      @ ''Content-Type: application/octet-stream'' @ CRLF @ CRLF @ xs\<close>
  have body: "CreateFormFile b ''file'' ''image'' @ xs = ((''--'' @ b) @ CRLF) @ ?h"
    by (simp add: CreateFormFile_def)
  have len: "length (''--'' @ b) + 2 = length ((''--'' @ b) @ CRLF)"
    by (simp add: CRLF_def)
  have dr: "drop (length (''--'' @ b) + 2) (((''--'' @ b) @ CRLF) @ ?h) = ?h"
    unfolding len by (rule drop_all_append)
  have pre: "prefix ((''--'' @ b) @ CRLF) (((''--'' @ b) @ CRLF) @ ?h)"
    by (rule prefixI) simp
  show ?thesis
    unfolding body NextPart_def Let_def
    by (simp only: pre dr read_form_file_header assms not_True_eq_False if_False
        option.case prod.case)
qed

text \<open>
  Claim C2. For a request whose image bytes can be read, \<^verbatim>\<open>requestForSearch\<close> renders a
  POST with the content type \<^verbatim>\<open>multipart/form-data\<close> and the boundary; the body is the
  header of one part, the image bytes as they are, and the closing delimiter. Read back
  with the boundary, the body gives one part, with the disposition
  \<^verbatim>\<open>form-data; name="file"; filename="image"\<close>, whose content is the image bytes, and then
  the end. The boundary is the random one of the writer, 60 hexadecimal digits, and is
  taken not to occur after two dashes in the image.
\<close>

theorem multipart_roundtrip:
  assumes "ImageBytes r = Some (Reader bs None)"
    and "NewRequestOK h ''POST'' (searchURL c r)"
    and "is_random_boundary (RandomBoundary h)"
    and "\<not> sublist (''--'' @ RandomBoundary h) bs"
  shows \<open>\<exists>body.
      requestForSearch h c r =
        Returns (Some \<lparr>Method = ''POST'', RawURL = searchURL c r, ReqBody = Some body,
          ContentType = Some (''multipart/form-data; boundary='' @ RandomBoundary h)\<rparr>, None)
    \<and> body = CreateFormFile (RandomBoundary h) ''file'' ''image'' @ bs @ Close (RandomBoundary h)
    \<and> NextPart (RandomBoundary h) body
        = Some ([(''Content-Disposition'', ''form-data; name="file"; filename="image"''),
                 (''Content-Type'', ''application/octet-stream'')], bs, Close (RandomBoundary h))
    \<and> NextPart_EOF (RandomBoundary h) (Close (RandomBoundary h))\<close>
proof -
  let ?b = "RandomBoundary h"
  let ?body = "CreateFormFile ?b ''file'' ''image'' @ bs @ Close ?b"
  have ct: "FormDataContentType ?b = ''multipart/form-data; boundary='' @ ?b"
    using assms(3) by (rule content_type_random)
  have rq: "requestForSearch h c r =
        Returns (Some \<lparr>Method = ''POST'', RawURL = searchURL c r, ReqBody = Some ?body,
          ContentType = Some (''multipart/form-data; boundary='' @ ?b)\<rparr>, None)"
    using assms(1,2) by (simp add: requestForSearch_def ct)
  have cr: "CHR 0x0D \<notin> set ?b" using assms(3) by (rule random_boundary_chars(1))
  have pc: "partContent ?b (bs @ Close ?b) = Some (bs, Close ?b)"
    using cr assms(4) by (rule partContent_roundtrip)
  have np: \<open>NextPart ?b ?body
        = Some ([(''Content-Disposition'', ''form-data; name="file"; filename="image"''),
                 (''Content-Type'', ''application/octet-stream'')], bs, Close ?b)\<close>
    using pc by (rule NextPart_form_file)
  from rq np NextPart_EOF_Close [of ?b] show ?thesis by blast
qed

lemma example_boundary_random: "is_random_boundary example_boundary"
  by (simp add: is_random_boundary_def example_boundary_def)

theorem multipart_roundtrip_witness:
  \<open>ImageBytes image_request = Some (Reader ''eyjafjalla'' None)
   \<and> NewRequestOK test_http ''POST'' (searchURL (spy_client (Inl QuotaError)) image_request)
   \<and> is_random_boundary (RandomBoundary test_http)
   \<and> \<not> sublist (''--'' @ RandomBoundary test_http) ''eyjafjalla''
   \<and> map_option ReqBody (request_of (requestForSearch test_http (spy_client (Inl QuotaError)) image_request))
       = Some (Some (CreateFormFile example_boundary ''file'' ''image'' @ ''eyjafjalla''
                     @ Close example_boundary))
   \<and> NextPart example_boundary
        (CreateFormFile example_boundary ''file'' ''image'' @ ''eyjafjalla'' @ Close example_boundary)
       = Some ([(''Content-Disposition'', ''form-data; name="file"; filename="image"''),
                (''Content-Type'', ''application/octet-stream'')], ''eyjafjalla'',
               Close example_boundary)\<close>
proof -
  have rb: "RandomBoundary test_http = example_boundary" by (simp add: test_http_def)
  have a: "ImageBytes image_request = Some (Reader ''eyjafjalla'' None)"
    by (simp add: image_request_def)
  have b: "NewRequestOK test_http ''POST'' (searchURL (spy_client (Inl QuotaError)) image_request)"
    by (simp add: test_http_def)
  have c: "is_random_boundary (RandomBoundary test_http)"
    unfolding rb by (rule example_boundary_random)
  have d: "\<not> sublist (''--'' @ RandomBoundary test_http) ''eyjafjalla''"
  proof
    assume "sublist (''--'' @ RandomBoundary test_http) ''eyjafjalla''"
    then have "length (''--'' @ RandomBoundary test_http) \<le> length ''eyjafjalla''"
      by (rule sublist_length_le)
    then show False by (simp add: rb example_boundary_def)
  qed
  from multipart_roundtrip [OF a b c d] obtain body where
    rq: "requestForSearch test_http (spy_client (Inl QuotaError)) image_request =
        Returns (Some \<lparr>Method = ''POST'',
          RawURL = searchURL (spy_client (Inl QuotaError)) image_request, ReqBody = Some body,
          ContentType = Some (''multipart/form-data; boundary='' @ RandomBoundary test_http)\<rparr>, None)"
    and body: "body = CreateFormFile (RandomBoundary test_http) ''file'' ''image'' @ ''eyjafjalla''
        @ Close (RandomBoundary test_http)"
    and np: \<open>NextPart (RandomBoundary test_http) body
        = Some ([(''Content-Disposition'', ''form-data; name="file"; filename="image"''),
                 (''Content-Type'', ''application/octet-stream'')], ''eyjafjalla'',
                Close (RandomBoundary test_http))\<close>
    by blast
  have e: "map_option ReqBody (request_of (requestForSearch test_http (spy_client (Inl QuotaError)) image_request))
       = Some (Some (CreateFormFile example_boundary ''file'' ''image'' @ ''eyjafjalla''
                     @ Close example_boundary))"
    unfolding rq body rb by (simp add: request_of_def)
  from np have f: \<open>NextPart example_boundary
        (CreateFormFile example_boundary ''file'' ''image'' @ ''eyjafjalla'' @ Close example_boundary)
       = Some ([(''Content-Disposition'', ''form-data; name="file"; filename="image"''),
                (''Content-Type'', ''application/octet-stream'')], ''eyjafjalla'',
               Close example_boundary)\<close>
    unfolding body rb .
  from a b c d e f show ?thesis by (intro conjI)
qed

text \<open>
  A remark on the last hypothesis of C2: the writer does not look at the bytes it
  copies, so an image in which the delimiter stands is cut there by the reader.
\<close>

lemma boundary_in_image:
  \<open>NextPart b (CreateFormFile b ''file'' ''image'' @ (''--'' @ b @ ''--'') @ Close b)
    = Some ([(''Content-Disposition'', ''form-data; name="file"; filename="image"''),
             (''Content-Type'', ''application/octet-stream'')], [], (''--'' @ b @ ''--'') @ Close b)\<close>
proof -
  have pre: "prefix (''--'' @ b) ((''--'' @ b @ ''--'') @ Close b)"
    by (rule prefixI [where zs = "''--'' @ Close b"]) simp
  have dr: "drop (length (''--'' @ b)) ((''--'' @ b @ ''--'') @ Close b) = ''--'' @ Close b"
    by simp
  have "partContent b ((''--'' @ b @ ''--'') @ Close b) = Some ([], (''--'' @ b @ ''--'') @ Close b)"
    unfolding partContent_def Let_def
    by (simp only: pre dr if_True) (simp add: matchAfterPrefix_def)
  then show ?thesis by (rule NextPart_form_file)
qed

subsection \<open>Errors of decoding\<close>






subsection \<open>Decoding into structs\<close>
















































end
